theory Spec2Isabelle
  imports Main
begin

section \<open>Strings\<close>

text \<open>
  The program is one browser script, \<^verbatim>\<open>src/main.js\<close>. A JavaScript string is modelled
  as a \<^typ>\<open>string\<close>; a \<^typ>\<open>char\<close> stands for a code unit below 256. The two quote
  characters are named, since they delimit string literals here.
\<close>

definition dquote :: char where
  "dquote = CHR 0x22"

definition squote :: char where
  "squote = CHR 0x27"

definition newline :: char where
  "newline = CHR 0x0A"

text \<open>
  \<^verbatim>\<open>String.prototype.trim\<close> strips white space and line terminators from both ends;
  below 256 these are tab, line feed, vertical tab, form feed, carriage return, space and
  the no-break space.
\<close>

definition is_white_space :: "char \<Rightarrow> bool" where
  "is_white_space c =
     (c \<in> set [CHR 0x09, CHR 0x0A, CHR 0x0B, CHR 0x0C, CHR 0x0D, CHR 0x20, CHR 0xA0])"

definition trim :: "string \<Rightarrow> string" where
  "trim s = rev (dropWhile is_white_space (rev (dropWhile is_white_space s)))"

text \<open>
  \<^verbatim>\<open>str.split(/\n|,/)\<close>: the pieces between separators; the empty string splits into
  one empty piece.
\<close>

fun split :: "(char \<Rightarrow> bool) \<Rightarrow> string \<Rightarrow> string list" where
  "split sep [] = [[]]"
| "split sep (c # cs) =
     (if sep c then [] # split sep cs
      else (case split sep cs of
              [] \<Rightarrow> [[c]]
            | piece # pieces \<Rightarrow> (c # piece) # pieces))"

text \<open>The decimal form of a non-negative integer, as a template literal prints it.\<close>

definition digit :: "nat \<Rightarrow> char" where
  "digit d = ''0123456789'' ! d"

fun show_nat :: "nat \<Rightarrow> string" where
  "show_nat n =
     (if n < 10 then [digit n]
      else show_nat (n div 10) @ [digit (n mod 10)])"

text \<open>\<^verbatim>\<open>str.replace(/c/g, r)\<close> for a single character \<open>c\<close>.\<close>

definition replace_all :: "char \<Rightarrow> string \<Rightarrow> string \<Rightarrow> string" where
  "replace_all c r str = concat (map (\<lambda>x. if x = c then r else [x]) str)"

section \<open>The renderer\<close>

definition escapeHTML :: "string \<Rightarrow> string" where
  "escapeHTML str =
     replace_all squote ''&#039;''
       (replace_all dquote ''&quot;''
         (replace_all CHR ''>'' ''&gt;''
           (replace_all CHR ''<'' ''&lt;''
             (replace_all CHR ''&'' ''&amp;'' str))))"

text \<open>
  The values the renderer and the handlers see: what \<^verbatim>\<open>JSON.parse\<close> returns, and
  \<^verbatim>\<open>undefined\<close>, which reading an absent property gives. The number type is a
  parameter. An object is the list of its entries in the order \<^verbatim>\<open>Object.entries\<close>
  enumerates them.
\<close>

datatype 'n json =
    JUndefined
  | JNull
  | JBool bool
  | JNumber 'n
  | JString string
  | JArray "'n json list"
  | JObject "(string \<times> 'n json) list"

record request =
  req_method :: string
  req_url :: string
  req_headers :: "(string \<times> string) list"
  req_body :: "string option"

text \<open>
  A response of \<^verbatim>\<open>fetch\<close>: its \<^verbatim>\<open>ok\<close> flag, status and status text, and what
  \<^verbatim>\<open>response.json()\<close> settles to: the parsed body, or the message of its rejection.
\<close>

record 'n response =
  resp_ok :: bool
  resp_status :: nat
  resp_statusText :: string
  resp_json :: "string + 'n json"

text \<open>
  What the script takes from the browser: the operations on numbers, the messages of the
  two kinds of TypeError, the string and URL builtins, the JSON codec, and \<^verbatim>\<open>fetch\<close>,
  which settles to a response or rejects with an error message.
\<close>

record 'n engine =
  number_toString :: "'n \<Rightarrow> string"
  number_is_200 :: "'n \<Rightarrow> bool"
  number_is_falsy :: "'n \<Rightarrow> bool"
  property_TypeError :: "'n json \<Rightarrow> string \<Rightarrow> string"
  primitive_TypeError :: string
  toUpperCase :: "string \<Rightarrow> string"
  encodeURIComponent :: "string \<Rightarrow> string"
  URL_toString :: "string \<Rightarrow> (string \<times> string) list \<Rightarrow> string"
  JSON_parse :: "string \<Rightarrow> string + 'n json"
  JSON_stringify :: "'n json \<Rightarrow> string"
  fetch :: "request \<Rightarrow> string + 'n response"

definition null_marker :: string where
  "null_marker = ''<span class='' @ [dquote] @ ''null'' @ [dquote] @ ''>null</span>''"

text \<open>
  \<^verbatim>\<open>String(obj)\<close> is reached for a value that is not an object: a boolean, a number
  or a string.
\<close>

definition boolean_toString :: "bool \<Rightarrow> string" where
  "boolean_toString b = (if b then ''true'' else ''false'')"

fun generateHTML :: "'n engine \<Rightarrow> 'n json \<Rightarrow> string" where
  "generateHTML E JNull = null_marker"
| "generateHTML E JUndefined = null_marker"
| "generateHTML E (JBool b) = escapeHTML (boolean_toString b)"
| "generateHTML E (JNumber n) = escapeHTML (number_toString E n)"
| "generateHTML E (JString s) = escapeHTML s"
| "generateHTML E (JArray items) =
     ''<ul>'' @ concat (map (\<lambda>item. ''<li>'' @ generateHTML E item @ ''</li>'') items) @ ''</ul>''"
| "generateHTML E (JObject entries) =
     ''<ul>''
     @ concat (map (\<lambda>(key, v).
         ''<li><strong>'' @ escapeHTML key @ '':</strong> '' @ generateHTML E v @ ''</li>'') entries)
     @ ''</ul>''"

section \<open>The results area\<close>

text \<open>
  A card is its heading (the \<^verbatim>\<open>textContent\<close> of the \<^verbatim>\<open>h3\<close>) and the markup assigned
  to its content element. The page is the list of cards in the results container, in
  order, and the log of the requests handed to \<^verbatim>\<open>fetch\<close>.
\<close>

record card =
  heading :: string
  content :: string

record page =
  results :: "card list"
  calls :: "request list"

definition clearResults :: "page \<Rightarrow> page" where
  "clearResults st = st\<lparr>results := []\<rparr>"

definition renderCard :: "'n engine \<Rightarrow> string \<Rightarrow> 'n json \<Rightarrow> page \<Rightarrow> page" where
  "renderCard E title data st =
     st\<lparr>results := results st @ [\<lparr>heading = title, content = generateHTML E data\<rparr>]\<rparr>"

definition renderError :: "'n engine \<Rightarrow> 'n json \<Rightarrow> page \<Rightarrow> page" where
  "renderError E message st = renderCard E ''Error'' (JObject [(''message'', message)]) st"

section \<open>The request dispatcher\<close>

text \<open>
  Both functions return the parsed body, or \<open>Inl\<close> the message of the error they throw,
  and log the request.
\<close>

definition getJSON :: "'n engine \<Rightarrow> string \<Rightarrow> page \<Rightarrow> (string + 'n json) \<times> page" where
  "getJSON E url st =
     (let req = \<lparr>req_method = ''GET'', req_url = url, req_headers = [], req_body = None\<rparr>;
          st' = st\<lparr>calls := calls st @ [req]\<rparr>
      in case fetch E req of
           Inl message \<Rightarrow> (Inl message, st')
         | Inr response \<Rightarrow>
             if \<not> resp_ok response
             then (Inl (show_nat (resp_status response) @ '' '' @ resp_statusText response), st')
             else (resp_json response, st'))"

definition postJSON ::
  "'n engine \<Rightarrow> string \<Rightarrow> 'n json \<Rightarrow> page \<Rightarrow> (string + 'n json) \<times> page" where
  "postJSON E url body st =
     (let req = \<lparr>req_method = ''POST'', req_url = url,
                 req_headers = [(''Content-Type'', ''application/json'')],
                 req_body = Some (JSON_stringify E body)\<rparr>;
          st' = st\<lparr>calls := calls st @ [req]\<rparr>
      in case fetch E req of
           Inl message \<Rightarrow> (Inl message, st')
         | Inr response \<Rightarrow>
             if \<not> resp_ok response
             then (Inl (show_nat (resp_status response) @ '' '' @ resp_statusText response), st')
             else (resp_json response, st'))"

section \<open>Expressions of the handlers\<close>

text \<open>
  Reading one of the properties the handlers name (\<^verbatim>\<open>status\<close>, \<^verbatim>\<open>result\<close>,
  \<^verbatim>\<open>error\<close>, \<^verbatim>\<open>query\<close>, \<^verbatim>\<open>postcode\<close>, \<^verbatim>\<open>outcode\<close>, \<^verbatim>\<open>place_name\<close>): on
  \<^verbatim>\<open>null\<close> and \<^verbatim>\<open>undefined\<close> a TypeError is thrown; an object gives the entry of
  that key, or \<^verbatim>\<open>undefined\<close>; no array, string, number or boolean has a property of
  one of these names.
\<close>

fun get_prop :: "'n engine \<Rightarrow> 'n json \<Rightarrow> string \<Rightarrow> string + 'n json" where
  "get_prop E JUndefined name = Inl (property_TypeError E JUndefined name)"
| "get_prop E JNull name = Inl (property_TypeError E JNull name)"
| "get_prop E (JObject entries) name =
     (case map_of entries name of None \<Rightarrow> Inr JUndefined | Some v \<Rightarrow> Inr v)"
| "get_prop E obj name = Inr JUndefined"

text \<open>The condition of an \<^verbatim>\<open>if\<close>, of \<^verbatim>\<open>||\<close> and of \<^verbatim>\<open>?:\<close>.\<close>

fun truthy :: "'n engine \<Rightarrow> 'n json \<Rightarrow> bool" where
  "truthy E JUndefined = False"
| "truthy E JNull = False"
| "truthy E (JBool b) = b"
| "truthy E (JNumber n) = (\<not> number_is_falsy E n)"
| "truthy E (JString s) = (s \<noteq> [])"
| "truthy E (JArray items) = True"
| "truthy E (JObject entries) = True"

text \<open>\<^verbatim>\<open>data.status === 200\<close>.\<close>

fun is_200 :: "'n engine \<Rightarrow> 'n json \<Rightarrow> bool" where
  "is_200 E (JNumber n) = number_is_200 E n"
| "is_200 E v = False"

text \<open>
  The conversion to a string that a template literal and the assignment to
  \<^verbatim>\<open>textContent\<close> apply. An array joins its elements with commas, \<^verbatim>\<open>null\<close> and
  \<^verbatim>\<open>undefined\<close> elements as the empty string. An object of parsed JSON is
  \<^verbatim>\<open>[object Object]\<close>, unless it has a key \<^verbatim>\<open>toString\<close>: its value is no function,
  and the conversion throws a TypeError.
\<close>

fun join :: "string \<Rightarrow> string list \<Rightarrow> string" where
  "join sep [] = []"
| "join sep [x] = x"
| "join sep (x # xs) = x @ sep @ join sep xs"

fun ToString :: "'n engine \<Rightarrow> 'n json \<Rightarrow> string + string"
  and ToString_elements :: "'n engine \<Rightarrow> 'n json list \<Rightarrow> string + string list" where
  "ToString E JUndefined = Inr ''undefined''"
| "ToString E JNull = Inr ''null''"
| "ToString E (JBool b) = Inr (boolean_toString b)"
| "ToString E (JNumber n) = Inr (number_toString E n)"
| "ToString E (JString s) = Inr s"
| "ToString E (JArray items) =
     (case ToString_elements E items of
        Inl message \<Rightarrow> Inl message
      | Inr parts \<Rightarrow> Inr (join '','' parts))"
| "ToString E (JObject entries) =
     (if ''toString'' \<in> set (map fst entries) then Inl (primitive_TypeError E)
      else Inr ''[object Object]'')"
| "ToString_elements E [] = Inr []"
| "ToString_elements E (element # elements) =
     (case (if element = JUndefined \<or> element = JNull then Inr [] else ToString E element) of
        Inl message \<Rightarrow> Inl message
      | Inr next \<Rightarrow>
          (case ToString_elements E elements of
             Inl message \<Rightarrow> Inl message
           | Inr parts \<Rightarrow> Inr (next # parts)))"

text \<open>
  How a block of statements ends: normally, or by throwing an error with a message; in
  both cases in the page as the block left it.
\<close>

datatype completion = Normal page | Throw string page

text \<open>Every handler's \<^verbatim>\<open>catch (err) { renderError(err.message); }\<close>.\<close>

fun catch_err :: "'n engine \<Rightarrow> completion \<Rightarrow> page" where
  "catch_err E (Normal st) = st"
| "catch_err E (Throw message st) = renderError E (JString message) st"

text \<open>
  \<^verbatim>\<open>array.forEach((item, idx) => ...)\<close>: the callback runs on each element in order,
  and the first throw ends the iteration.
\<close>

fun forEach ::
  "('a \<Rightarrow> nat \<Rightarrow> page \<Rightarrow> completion) \<Rightarrow> 'a list \<Rightarrow> nat \<Rightarrow> page \<Rightarrow> completion" where
  "forEach callback [] idx st = Normal st"
| "forEach callback (item # items) idx st =
     (case callback item idx st of
        Normal st' \<Rightarrow> forEach callback items (idx + 1) st'
      | Throw message st' \<Rightarrow> Throw message st')"

section \<open>The click handlers\<close>

text \<open>
  The values of the input fields when a button is clicked, by element id.
\<close>

record inputs =
  postcodeInput :: string
  bulkPostcodes :: string
  latitudeInput :: string
  longitudeInput :: string
  bulkGeo :: string
  outcodeInput :: string
  placeCodeInput :: string
  placeQueryInput :: string
  terminatedInput :: string
  scottishInput :: string

definition API_BASE :: string where
  "API_BASE = ''https://api.postcodes.io''"

text \<open>
  A handler is a function from the page before the click to the page once the handler
  has finished: it awaits one request at most, and is run here without another handler in
  between. Each is named after its button.
\<close>

definition lookupPostcodeBtn :: "'n engine \<Rightarrow> inputs \<Rightarrow> page \<Rightarrow> page" where
  "lookupPostcodeBtn E inp st =
     (let postcode = trim (postcodeInput inp) in
      if postcode = [] then st
      else
        let st1 = clearResults st;
            (r, st2) = getJSON E (API_BASE @ ''/postcodes/'' @ encodeURIComponent E postcode) st1
        in catch_err E
          (case r of
             Inl message \<Rightarrow> Throw message st2
           | Inr data \<Rightarrow>
               (case get_prop E data ''status'' of
                  Inl message \<Rightarrow> Throw message st2
                | Inr status \<Rightarrow>
                    if is_200 E status then
                      (case get_prop E data ''result'' of
                         Inl message \<Rightarrow> Throw message st2
                       | Inr result \<Rightarrow>
                           Normal (renderCard E (''Postcode: '' @ toUpperCase E postcode) result st2))
                    else
                      (case get_prop E data ''error'' of
                         Inl message \<Rightarrow> Throw message st2
                       | Inr err \<Rightarrow>
                           Normal (renderError E
                             (if truthy E err then err
                              else JString (''No data found for '' @ postcode)) st2)))))"

definition validatePostcodeBtn :: "'n engine \<Rightarrow> inputs \<Rightarrow> page \<Rightarrow> page" where
  "validatePostcodeBtn E inp st =
     (let postcode = trim (postcodeInput inp) in
      if postcode = [] then st
      else
        let st1 = clearResults st;
            (r, st2) = getJSON E
              (API_BASE @ ''/postcodes/'' @ encodeURIComponent E postcode @ ''/validate'') st1
        in catch_err E
          (case r of
             Inl message \<Rightarrow> Throw message st2
           | Inr data \<Rightarrow>
               (case get_prop E data ''result'' of
                  Inl message \<Rightarrow> Throw message st2
                | Inr result \<Rightarrow>
                    (case result of
                       JBool b \<Rightarrow>
                         Normal (renderCard E
                           (''Validate Postcode: '' @ toUpperCase E postcode)
                           (JObject [(''postcode'', JString (toUpperCase E postcode)),
                                     (''valid'', result)])
                           st2)
                     | _ \<Rightarrow>
                         Normal (renderError E (JString ''Unexpected validation response'') st2)))))"

definition queryPostcodeBtn :: "'n engine \<Rightarrow> inputs \<Rightarrow> page \<Rightarrow> page" where
  "queryPostcodeBtn E inp st =
     (let query = trim (postcodeInput inp) in
      if query = [] then st
      else
        let st1 = clearResults st;
            (r, st2) = getJSON E (URL_toString E (API_BASE @ ''/postcodes'') [(''q'', query), (''limit'', ''20'')]) st1
        in catch_err E
          (case r of
             Inl message \<Rightarrow> Throw message st2
           | Inr data \<Rightarrow>
               (case get_prop E data ''status'' of
                  Inl message \<Rightarrow> Throw message st2
                | Inr status \<Rightarrow>
                    if is_200 E status then
                      (case get_prop E data ''result'' of
                         Inl message \<Rightarrow> Throw message st2
                       | Inr result \<Rightarrow>
                           (case result of
                              JArray items \<Rightarrow>
                                if items \<noteq> [] then
                                  forEach
                                    (\<lambda>item idx s.
                                       case get_prop E item ''postcode'' of
                                         Inl message \<Rightarrow> Throw message s
                                       | Inr v \<Rightarrow>
                                           (case ToString E v of
                                              Inl message \<Rightarrow> Throw message s
                                            | Inr t \<Rightarrow>
                                                Normal (renderCard E
                                                  (''Match '' @ show_nat (idx + 1) @ '': '' @ t)
                                                  item s)))
                                    items 0 st2
                                else Normal (renderError E (JString (''No matches found for query '' @ [squote] @ query @ [squote] @ ''.'')) st2)
                            | _ \<Rightarrow> Normal (renderError E (JString (''No matches found for query '' @ [squote] @ query @ [squote] @ ''.'')) st2)))
                    else Normal (renderError E (JString (''No matches found for query '' @ [squote] @ query @ [squote] @ ''.'')) st2))))"

text \<open>
  The bulk lookup: a too long list is refused before the results are cleared and before
  any request.
\<close>

definition bulk_lines :: "string \<Rightarrow> string list" where
  "bulk_lines text_value =
     filter (\<lambda>s. s \<noteq> []) (map trim (split (\<lambda>c. c = newline \<or> c = CHR '','') text_value))"

definition bulkLookupBtn :: "'n engine \<Rightarrow> inputs \<Rightarrow> page \<Rightarrow> page" where
  "bulkLookupBtn E inp st =
     (let lines = bulk_lines (bulkPostcodes inp) in
      if lines = [] then st
      else if length lines > 100 then
        renderError E (JString ''Bulk lookup is limited to 100 postcodes.'') st
      else
        let st1 = clearResults st;
            (r, st2) = postJSON E (API_BASE @ ''/postcodes'')
              (JObject [(''postcodes'', JArray (map JString lines))]) st1
        in catch_err E
          (case r of
             Inl message \<Rightarrow> Throw message st2
           | Inr data \<Rightarrow>
               (case get_prop E data ''status'' of
                  Inl message \<Rightarrow> Throw message st2
                | Inr status \<Rightarrow>
                    if is_200 E status then
                      (case get_prop E data ''result'' of
                         Inl message \<Rightarrow> Throw message st2
                       | Inr result \<Rightarrow>
                           (case result of
                              JArray items \<Rightarrow>
                                forEach
                                  (\<lambda>item idx s.
                                     case get_prop E item ''query'' of
                                       Inl message \<Rightarrow> Throw message s
                                     | Inr title \<Rightarrow>
                                         (case get_prop E item ''result'' of
                                            Inl message \<Rightarrow> Throw message s
                                          | Inr item_result \<Rightarrow>
                                              (case ToString E title of
                                                 Inl message \<Rightarrow> Throw message s
                                               | Inr t \<Rightarrow>
                                                   if truthy E item_result then
                                                     Normal (renderCard E
                                                       (''Bulk Result for '' @ t) item_result s)
                                                   else
                                                     Normal (renderCard E
                                                       (''Bulk Result for '' @ t)
                                                       (JObject [(''error'', JString ''Not found'')])
                                                       s))))
                                  items 0 st2
                            | _ \<Rightarrow>
                                Normal (renderError E
                                  (JString ''Unexpected bulk lookup response.'') st2)))
                    else
                      Normal (renderError E
                        (JString ''Unexpected bulk lookup response.'') st2))))"

definition randomPostcodeBtn :: "'n engine \<Rightarrow> inputs \<Rightarrow> page \<Rightarrow> page" where
  "randomPostcodeBtn E inp st =
     (let outcodeInput = trim (postcodeInput inp);
          st1 = clearResults st;
          (r, st2) = getJSON E (URL_toString E (API_BASE @ ''/random/postcodes'')
            (if outcodeInput \<noteq> [] then [(''outcode'', outcodeInput)] else [])) st1
      in catch_err E
        (case r of
           Inl message \<Rightarrow> Throw message st2
         | Inr data \<Rightarrow>
             (case get_prop E data ''status'' of
                Inl message \<Rightarrow> Throw message st2
              | Inr status \<Rightarrow>
                  if is_200 E status then
                    (case get_prop E data ''result'' of
                       Inl message \<Rightarrow> Throw message st2
                     | Inr result \<Rightarrow> Normal (renderCard E ''Random Postcode'' result st2))
                  else Normal (renderError E (JString ''Failed to retrieve random postcode.'') st2))))"

text \<open>The autocomplete handler passes the whole sequence to one card.\<close>

definition autocompleteBtn :: "'n engine \<Rightarrow> inputs \<Rightarrow> page \<Rightarrow> page" where
  "autocompleteBtn E inp st =
     (let partial = trim (postcodeInput inp) in
      if partial = [] then st
      else
        let st1 = clearResults st;
            (r, st2) = getJSON E
              (URL_toString E
                 (API_BASE @ ''/postcodes/'' @ encodeURIComponent E partial @ ''/autocomplete'')
                 [(''limit'', ''20'')]) st1
        in catch_err E
          (case r of
             Inl message \<Rightarrow> Throw message st2
           | Inr data \<Rightarrow>
               (case get_prop E data ''status'' of
                  Inl message \<Rightarrow> Throw message st2
                | Inr status \<Rightarrow>
                    if is_200 E status then
                      (case get_prop E data ''result'' of
                         Inl message \<Rightarrow> Throw message st2
                       | Inr result \<Rightarrow>
                           (case result of
                              JArray items \<Rightarrow>
                                if items \<noteq> [] then
                                  Normal (renderCard E
                                    (''Autocomplete for '' @ [squote] @ partial @ [squote])
                                    result st2)
                                else
                                  Normal (renderError E (JString
                                    (''No autocomplete results for '' @ [squote] @ partial
                                     @ [squote] @ ''.'')) st2)
                            | _ \<Rightarrow>
                                Normal (renderError E (JString
                                  (''No autocomplete results for '' @ [squote] @ partial
                                   @ [squote] @ ''.'')) st2)))
                    else
                      Normal (renderError E (JString
                        (''No autocomplete results for '' @ [squote] @ partial
                         @ [squote] @ ''.'')) st2))))"

definition nearestPostcodeBtn :: "'n engine \<Rightarrow> inputs \<Rightarrow> page \<Rightarrow> page" where
  "nearestPostcodeBtn E inp st =
     (let postcode = trim (postcodeInput inp) in
      if postcode = [] then st
      else
        let st1 = clearResults st;
            (r, st2) = getJSON E (URL_toString E
              (API_BASE @ ''/postcodes/'' @ encodeURIComponent E postcode @ ''/nearest'')
              [(''limit'', ''10'')]) st1
        in catch_err E
          (case r of
             Inl message \<Rightarrow> Throw message st2
           | Inr data \<Rightarrow>
               (case get_prop E data ''status'' of
                  Inl message \<Rightarrow> Throw message st2
                | Inr status \<Rightarrow>
                    if is_200 E status then
                      (case get_prop E data ''result'' of
                         Inl message \<Rightarrow> Throw message st2
                       | Inr result \<Rightarrow>
                           (case result of
                              JArray items \<Rightarrow>
                                if items \<noteq> [] then
                                  forEach
                                    (\<lambda>item idx s.
                                       case get_prop E item ''postcode'' of
                                         Inl message \<Rightarrow> Throw message s
                                       | Inr v \<Rightarrow>
                                           (case ToString E v of
                                              Inl message \<Rightarrow> Throw message s
                                            | Inr t \<Rightarrow>
                                                Normal (renderCard E
                                                  (''Nearest '' @ show_nat (idx + 1) @ '': '' @ t)
                                                  item s)))
                                    items 0 st2
                                else Normal (renderError E (JString (''No nearest postcodes found for '' @ [squote] @ postcode @ [squote] @ ''.'')) st2)
                            | _ \<Rightarrow> Normal (renderError E (JString (''No nearest postcodes found for '' @ [squote] @ postcode @ [squote] @ ''.'')) st2)))
                    else Normal (renderError E (JString (''No nearest postcodes found for '' @ [squote] @ postcode @ [squote] @ ''.'')) st2))))"

definition reverseGeocodeBtn :: "'n engine \<Rightarrow> inputs \<Rightarrow> page \<Rightarrow> page" where
  "reverseGeocodeBtn E inp st =
     (let lat = trim (latitudeInput inp);
          lon = trim (longitudeInput inp) in
      if lat = [] \<or> lon = [] then st
      else
        let st1 = clearResults st;
            (r, st2) = getJSON E (URL_toString E (API_BASE @ ''/postcodes'')
              [(''lat'', lat), (''lon'', lon), (''limit'', ''10''), (''radius'', ''200'')]) st1
        in catch_err E
          (case r of
             Inl message \<Rightarrow> Throw message st2
           | Inr data \<Rightarrow>
               (case get_prop E data ''status'' of
                  Inl message \<Rightarrow> Throw message st2
                | Inr status \<Rightarrow>
                    if is_200 E status then
                      (case get_prop E data ''result'' of
                         Inl message \<Rightarrow> Throw message st2
                       | Inr result \<Rightarrow>
                           (case result of
                              JArray items \<Rightarrow>
                                if items \<noteq> [] then
                                  forEach
                                    (\<lambda>item idx s.
                                       case get_prop E item ''postcode'' of
                                         Inl message \<Rightarrow> Throw message s
                                       | Inr v \<Rightarrow>
                                           (case ToString E v of
                                              Inl message \<Rightarrow> Throw message s
                                            | Inr t \<Rightarrow>
                                                Normal (renderCard E
                                                  (''Reverse Geocode '' @ show_nat (idx + 1) @ '': '' @ t)
                                                  item s)))
                                    items 0 st2
                                else Normal (renderError E (JString (''No postcodes found for the provided coordinates.'')) st2)
                            | _ \<Rightarrow> Normal (renderError E (JString (''No postcodes found for the provided coordinates.'')) st2)))
                    else Normal (renderError E (JString (''No postcodes found for the provided coordinates.'')) st2))))"

text \<open>
  The bulk reverse geocode: text that does not parse, or parses to a value that is not an
  array, is refused before the results are cleared and before any request.
\<close>

definition bulkReverseBtn :: "'n engine \<Rightarrow> inputs \<Rightarrow> page \<Rightarrow> page" where
  "bulkReverseBtn E inp st =
     (let input = trim (bulkGeo inp) in
      if input = [] then st
      else
        case (case JSON_parse E input of
                Inl message \<Rightarrow> Inl message
              | Inr parsed \<Rightarrow>
                  (case parsed of
                     JArray elements \<Rightarrow> Inr parsed
                   | _ \<Rightarrow> Inl ''Input must be a JSON array'')) of
          Inl message \<Rightarrow> renderError E (JString ''Invalid JSON for bulk reverse geocode.'') st
        | Inr geolocations \<Rightarrow>
            let st1 = clearResults st;
                (r, st2) = postJSON E (API_BASE @ ''/postcodes'')
                  (JObject [(''geolocations'', geolocations)]) st1
            in catch_err E
              (case r of
                 Inl message \<Rightarrow> Throw message st2
               | Inr data \<Rightarrow>
                   (case get_prop E data ''status'' of
                      Inl message \<Rightarrow> Throw message st2
                    | Inr status \<Rightarrow>
                        if is_200 E status then
                          (case get_prop E data ''result'' of
                             Inl message \<Rightarrow> Throw message st2
                           | Inr result \<Rightarrow>
                               (case result of
                                  JArray items \<Rightarrow>
                                    forEach
                                      (\<lambda>item idx s.
                                         case get_prop E item ''query'' of
                                           Inl message \<Rightarrow> Throw message s
                                         | Inr queryCoords \<Rightarrow>
                                             (case get_prop E item ''result'' of
                                                Inl message \<Rightarrow> Throw message s
                                              | Inr item_result \<Rightarrow>
                                                  Normal (renderCard E
                                                    (''Bulk Reverse Result '' @ show_nat (idx + 1))
                                                    item_result s)))
                                      items 0 st2
                                | _ \<Rightarrow>
                                    Normal (renderError E (JString
                                      ''Unexpected bulk reverse geocode response.'') st2)))
                        else
                          Normal (renderError E (JString
                            ''Unexpected bulk reverse geocode response.'') st2))))"

definition reverseOutcodeBtn :: "'n engine \<Rightarrow> inputs \<Rightarrow> page \<Rightarrow> page" where
  "reverseOutcodeBtn E inp st =
     (let lat = trim (latitudeInput inp);
          lon = trim (longitudeInput inp) in
      if lat = [] \<or> lon = [] then st
      else
        let st1 = clearResults st;
            (r, st2) = getJSON E (URL_toString E (API_BASE @ ''/outcodes'')
              [(''lat'', lat), (''lon'', lon), (''limit'', ''10''), (''radius'', ''5000'')]) st1
        in catch_err E
          (case r of
             Inl message \<Rightarrow> Throw message st2
           | Inr data \<Rightarrow>
               (case get_prop E data ''status'' of
                  Inl message \<Rightarrow> Throw message st2
                | Inr status \<Rightarrow>
                    if is_200 E status then
                      (case get_prop E data ''result'' of
                         Inl message \<Rightarrow> Throw message st2
                       | Inr result \<Rightarrow>
                           (case result of
                              JArray items \<Rightarrow>
                                if items \<noteq> [] then
                                  forEach
                                    (\<lambda>item idx s.
                                       case get_prop E item ''outcode'' of
                                         Inl message \<Rightarrow> Throw message s
                                       | Inr v \<Rightarrow>
                                           (case ToString E v of
                                              Inl message \<Rightarrow> Throw message s
                                            | Inr t \<Rightarrow>
                                                Normal (renderCard E
                                                  (''Reverse Outcode '' @ show_nat (idx + 1) @ '': '' @ t)
                                                  item s)))
                                    items 0 st2
                                else Normal (renderError E (JString (''No outcodes found for the provided coordinates.'')) st2)
                            | _ \<Rightarrow> Normal (renderError E (JString (''No outcodes found for the provided coordinates.'')) st2)))
                    else Normal (renderError E (JString (''No outcodes found for the provided coordinates.'')) st2))))"

definition lookupOutcodeBtn :: "'n engine \<Rightarrow> inputs \<Rightarrow> page \<Rightarrow> page" where
  "lookupOutcodeBtn E inp st =
     (let outcode = trim (outcodeInput inp) in
      if outcode = [] then st
      else
        let st1 = clearResults st;
            (r, st2) = getJSON E (API_BASE @ ''/outcodes/'' @ encodeURIComponent E outcode) st1
        in catch_err E
          (case r of
             Inl message \<Rightarrow> Throw message st2
           | Inr data \<Rightarrow>
               (case get_prop E data ''status'' of
                  Inl message \<Rightarrow> Throw message st2
                | Inr status \<Rightarrow>
                    if is_200 E status then
                      (case get_prop E data ''result'' of
                         Inl message \<Rightarrow> Throw message st2
                       | Inr result \<Rightarrow>
                           Normal (renderCard E (''Outcode: '' @ toUpperCase E outcode) result st2))
                    else
                      (case get_prop E data ''error'' of
                         Inl message \<Rightarrow> Throw message st2
                       | Inr err \<Rightarrow>
                           Normal (renderError E
                             (if truthy E err then err
                              else JString (''No data found for outcode '' @ [squote] @ outcode @ [squote] @ ''.'')) st2)))))"

definition nearestOutcodeBtn :: "'n engine \<Rightarrow> inputs \<Rightarrow> page \<Rightarrow> page" where
  "nearestOutcodeBtn E inp st =
     (let outcode = trim (outcodeInput inp) in
      if outcode = [] then st
      else
        let st1 = clearResults st;
            (r, st2) = getJSON E (URL_toString E
              (API_BASE @ ''/outcodes/'' @ encodeURIComponent E outcode @ ''/nearest'')
              [(''limit'', ''10'')]) st1
        in catch_err E
          (case r of
             Inl message \<Rightarrow> Throw message st2
           | Inr data \<Rightarrow>
               (case get_prop E data ''status'' of
                  Inl message \<Rightarrow> Throw message st2
                | Inr status \<Rightarrow>
                    if is_200 E status then
                      (case get_prop E data ''result'' of
                         Inl message \<Rightarrow> Throw message st2
                       | Inr result \<Rightarrow>
                           (case result of
                              JArray items \<Rightarrow>
                                if items \<noteq> [] then
                                  forEach
                                    (\<lambda>item idx s.
                                       case get_prop E item ''outcode'' of
                                         Inl message \<Rightarrow> Throw message s
                                       | Inr v \<Rightarrow>
                                           (case ToString E v of
                                              Inl message \<Rightarrow> Throw message s
                                            | Inr t \<Rightarrow>
                                                Normal (renderCard E
                                                  (''Nearest Outcode '' @ show_nat (idx + 1) @ '': '' @ t)
                                                  item s)))
                                    items 0 st2
                                else Normal (renderError E (JString (''No nearest outcodes found for '' @ [squote] @ outcode @ [squote] @ ''.'')) st2)
                            | _ \<Rightarrow> Normal (renderError E (JString (''No nearest outcodes found for '' @ [squote] @ outcode @ [squote] @ ''.'')) st2)))
                    else Normal (renderError E (JString (''No nearest outcodes found for '' @ [squote] @ outcode @ [squote] @ ''.'')) st2))))"

definition lookupPlaceBtn :: "'n engine \<Rightarrow> inputs \<Rightarrow> page \<Rightarrow> page" where
  "lookupPlaceBtn E inp st =
     (let code = trim (placeCodeInput inp) in
      if code = [] then st
      else
        let st1 = clearResults st;
            (r, st2) = getJSON E (API_BASE @ ''/places/'' @ encodeURIComponent E code) st1
        in catch_err E
          (case r of
             Inl message \<Rightarrow> Throw message st2
           | Inr data \<Rightarrow>
               (case get_prop E data ''status'' of
                  Inl message \<Rightarrow> Throw message st2
                | Inr status \<Rightarrow>
                    if is_200 E status then
                      (case get_prop E data ''result'' of
                         Inl message \<Rightarrow> Throw message st2
                       | Inr result \<Rightarrow>
                           Normal (renderCard E (''Place Code: '' @ code) result st2))
                    else
                      (case get_prop E data ''error'' of
                         Inl message \<Rightarrow> Throw message st2
                       | Inr err \<Rightarrow>
                           Normal (renderError E
                             (if truthy E err then err
                              else JString (''No place found for code '' @ [squote] @ code @ [squote] @ ''.'')) st2)))))"

text \<open>
  In the place query the heading is the item's \<^verbatim>\<open>place_name\<close> when that is truthy,
  whatever its type: \<^verbatim>\<open>renderCard\<close> assigns it to \<^verbatim>\<open>textContent\<close>, which
  converts it to a string before the card is appended.
\<close>


definition queryPlaceBtn :: "'n engine \<Rightarrow> inputs \<Rightarrow> page \<Rightarrow> page" where
  "queryPlaceBtn E inp st =
     (let query = trim (placeQueryInput inp) in
      if query = [] then st
      else
        let st1 = clearResults st;
            (r, st2) = getJSON E (URL_toString E (API_BASE @ ''/places'') [(''q'', query), (''limit'', ''20'')]) st1
        in catch_err E
          (case r of
             Inl message \<Rightarrow> Throw message st2
           | Inr data \<Rightarrow>
               (case get_prop E data ''status'' of
                  Inl message \<Rightarrow> Throw message st2
                | Inr status \<Rightarrow>
                    if is_200 E status then
                      (case get_prop E data ''result'' of
                         Inl message \<Rightarrow> Throw message st2
                       | Inr result \<Rightarrow>
                           (case result of
                              JArray items \<Rightarrow>
                                if items \<noteq> [] then
                                  forEach
                                    (\<lambda>item idx s.
                                       case get_prop E item ''place_name'' of
                                         Inl message \<Rightarrow> Throw message s
                                       | Inr place_name \<Rightarrow>
                                           (case (if truthy E place_name then ToString E place_name
                                                  else Inr (''Place '' @ show_nat (idx + 1))) of
                                              Inl message \<Rightarrow> Throw message s
                                            | Inr title \<Rightarrow> Normal (renderCard E title item s)))
                                    items 0 st2
                                else Normal (renderError E (JString (''No places found matching '' @ [squote] @ query @ [squote] @ ''.'')) st2)
                            | _ \<Rightarrow> Normal (renderError E (JString (''No places found matching '' @ [squote] @ query @ [squote] @ ''.'')) st2)))
                    else Normal (renderError E (JString (''No places found matching '' @ [squote] @ query @ [squote] @ ''.'')) st2))))"

definition randomPlaceBtn :: "'n engine \<Rightarrow> inputs \<Rightarrow> page \<Rightarrow> page" where
  "randomPlaceBtn E inp st =
     (let st1 = clearResults st;
          (r, st2) = getJSON E (API_BASE @ ''/random/places'') st1
      in catch_err E
        (case r of
           Inl message \<Rightarrow> Throw message st2
         | Inr data \<Rightarrow>
             (case get_prop E data ''status'' of
                Inl message \<Rightarrow> Throw message st2
              | Inr status \<Rightarrow>
                  if is_200 E status then
                    (case get_prop E data ''result'' of
                       Inl message \<Rightarrow> Throw message st2
                     | Inr result \<Rightarrow> Normal (renderCard E ''Random Place'' result st2))
                  else Normal (renderError E (JString ''Failed to retrieve random place.'') st2))))"

definition terminatedLookupBtn :: "'n engine \<Rightarrow> inputs \<Rightarrow> page \<Rightarrow> page" where
  "terminatedLookupBtn E inp st =
     (let postcode = trim (terminatedInput inp) in
      if postcode = [] then st
      else
        let st1 = clearResults st;
            (r, st2) = getJSON E (API_BASE @ ''/terminated_postcodes/'' @ encodeURIComponent E postcode) st1
        in catch_err E
          (case r of
             Inl message \<Rightarrow> Throw message st2
           | Inr data \<Rightarrow>
               (case get_prop E data ''status'' of
                  Inl message \<Rightarrow> Throw message st2
                | Inr status \<Rightarrow>
                    if is_200 E status then
                      (case get_prop E data ''result'' of
                         Inl message \<Rightarrow> Throw message st2
                       | Inr result \<Rightarrow>
                           Normal (renderCard E (''Terminated Postcode: '' @ toUpperCase E postcode) result st2))
                    else
                      (case get_prop E data ''error'' of
                         Inl message \<Rightarrow> Throw message st2
                       | Inr err \<Rightarrow>
                           Normal (renderError E
                             (if truthy E err then err
                              else JString (''No terminated data for '' @ [squote] @ postcode @ [squote] @ ''.'')) st2)))))"

definition scottishLookupBtn :: "'n engine \<Rightarrow> inputs \<Rightarrow> page \<Rightarrow> page" where
  "scottishLookupBtn E inp st =
     (let postcode = trim (scottishInput inp) in
      if postcode = [] then st
      else
        let st1 = clearResults st;
            (r, st2) = getJSON E (API_BASE @ ''/scotland/postcodes/'' @ encodeURIComponent E postcode) st1
        in catch_err E
          (case r of
             Inl message \<Rightarrow> Throw message st2
           | Inr data \<Rightarrow>
               (case get_prop E data ''status'' of
                  Inl message \<Rightarrow> Throw message st2
                | Inr status \<Rightarrow>
                    if is_200 E status then
                      (case get_prop E data ''result'' of
                         Inl message \<Rightarrow> Throw message st2
                       | Inr result \<Rightarrow>
                           Normal (renderCard E (''Scottish Postcode: '' @ toUpperCase E postcode) result st2))
                    else
                      (case get_prop E data ''error'' of
                         Inl message \<Rightarrow> Throw message st2
                       | Inr err \<Rightarrow>
                           Normal (renderError E
                             (if truthy E err then err
                              else JString (''No Scottish data for '' @ [squote] @ postcode @ [squote] @ ''.'')) st2)))))"

section \<open>What the properties speak of\<close>

text \<open>
  The five reserved characters and the references that \<^const>\<open>escapeHTML\<close> writes for
  them. A text is escaped when it holds no reserved character but \<open>&\<close>, and each \<open>&\<close>
  in it starts one of the five references.
\<close>

definition reserved :: "char list" where
  "reserved = [CHR ''&'', CHR ''<'', CHR ''>'', dquote, squote]"

definition references :: "string list" where
  "references = [''&amp;'', ''&lt;'', ''&gt;'', ''&quot;'', ''&#039;'']"

fun escaped_text :: "string \<Rightarrow> bool" where
  "escaped_text [] = True"
| "escaped_text (c # cs) =
     ((if c = CHR ''&'' then list_ex (\<lambda>r. take (length r) (c # cs) = r) references
       else c \<notin> set reserved) \<and> escaped_text cs)"

text \<open>
  Well-formed nested list markup: the null marker, an escaped text, a list of items each
  holding markup, or a list of rows each holding an escaped key and markup. Beyond these
  fixed tags, every character of such a string belongs to an escaped text.
\<close>

inductive well_formed_markup :: "string \<Rightarrow> bool" where
  marker: "well_formed_markup null_marker"
| leaf: "escaped_text t \<Longrightarrow> well_formed_markup t"
| sequence:
    "\<forall>m \<in> set ms. well_formed_markup m \<Longrightarrow>
     well_formed_markup (''<ul>'' @ concat (map (\<lambda>m. ''<li>'' @ m @ ''</li>'') ms) @ ''</ul>'')"
| mapping:
    "\<forall>(k, m) \<in> set rows. escaped_text k \<and> well_formed_markup m \<Longrightarrow>
     well_formed_markup
       (''<ul>''
        @ concat (map (\<lambda>(k, m). ''<li><strong>'' @ k @ '':</strong> '' @ m @ ''</li>'') rows)
        @ ''</ul>'')"

text \<open>
  Reading escaped text back: each of the five references stands for its reserved
  character, every other character for itself.
\<close>

fun unescape :: "string \<Rightarrow> string" where
  "unescape [] = []"
| "unescape (c # cs) =
     (if c = CHR ''&'' \<and> take 4 cs = ''amp;'' then CHR ''&'' # unescape (drop 4 cs)
      else if c = CHR ''&'' \<and> take 3 cs = ''lt;'' then CHR ''<'' # unescape (drop 3 cs)
      else if c = CHR ''&'' \<and> take 3 cs = ''gt;'' then CHR ''>'' # unescape (drop 3 cs)
      else if c = CHR ''&'' \<and> take 5 cs = ''quot;'' then dquote # unescape (drop 5 cs)
      else if c = CHR ''&'' \<and> take 5 cs = ''#039;'' then squote # unescape (drop 5 cs)
      else c # unescape cs)"

text \<open>
  What it is for a markup string to render a value with its string content escaped. The
  null marker renders \<^verbatim>\<open>null\<close> and \<^verbatim>\<open>undefined\<close>. A boolean, a number and a
  string are rendered by an escaped text that reads back as the value's string form. A
  sequence is rendered by a list with one item per member, in order, each item holding
  markup that renders that member. A mapping is rendered by a list with one row per
  entry, in order, each row holding an escaped text that reads back as the entry's key
  and markup that renders the entry's value.
\<close>

inductive renders :: "'n engine \<Rightarrow> 'n json \<Rightarrow> string \<Rightarrow> bool" for E where
  null: "renders E JNull null_marker"
| undefined: "renders E JUndefined null_marker"
| boolean: "escaped_text t \<Longrightarrow> unescape t = boolean_toString b \<Longrightarrow> renders E (JBool b) t"
| number: "escaped_text t \<Longrightarrow> unescape t = number_toString E n \<Longrightarrow> renders E (JNumber n) t"
| string: "escaped_text t \<Longrightarrow> unescape t = s \<Longrightarrow> renders E (JString s) t"
| array:
    "list_all2 (renders E) items ms \<Longrightarrow>
     renders E (JArray items)
       (''<ul>'' @ concat (map (\<lambda>m. ''<li>'' @ m @ ''</li>'') ms) @ ''</ul>'')"
| object:
    "list_all2 (\<lambda>key k. escaped_text k \<and> unescape k = key) (map fst entries) ks \<Longrightarrow>
     list_all2 (renders E) (map snd entries) ms \<Longrightarrow>
     renders E (JObject entries)
       (''<ul>''
        @ concat (map (\<lambda>(k, m). ''<li><strong>'' @ k @ '':</strong> '' @ m @ ''</li>'')
            (zip ks ms))
        @ ''</ul>'')"

text \<open>
  The card that \<^const>\<open>renderCard\<close> appends for a title and a value, and the card of
  \<^const>\<open>renderError\<close> for a message text.
\<close>

definition card_of :: "'n engine \<Rightarrow> string \<Rightarrow> 'n json \<Rightarrow> card" where
  "card_of E title data = \<lparr>heading = title, content = generateHTML E data\<rparr>"

definition error_card :: "'n engine \<Rightarrow> string \<Rightarrow> card" where
  "error_card E message = card_of E ''Error'' (JObject [(''message'', JString message)])"

text \<open>
  The transport delivers \<open>data\<close> when it answers every request with a success status and
  a body that parses to \<open>data\<close>. An envelope is a success envelope for \<open>items\<close> when its
  \<^verbatim>\<open>status\<close> is 200 and its \<^verbatim>\<open>result\<close> is the sequence \<open>items\<close>.
\<close>

definition delivers :: "'n engine \<Rightarrow> 'n json \<Rightarrow> bool" where
  "delivers E data =
     (\<forall>req. \<exists>response. fetch E req = Inr response \<and> resp_ok response
        \<and> resp_json response = Inr data)"

definition success_envelope :: "'n engine \<Rightarrow> 'n json \<Rightarrow> 'n json list \<Rightarrow> bool" where
  "success_envelope E data items =
     ((case get_prop E data ''status'' of Inl message \<Rightarrow> False | Inr status \<Rightarrow> is_200 E status)
      \<and> get_prop E data ''result'' = Inr (JArray items))"

text \<open>
  An item can be titled by a property when reading the property does not throw (the item
  is neither \<^verbatim>\<open>null\<close> nor \<^verbatim>\<open>undefined\<close>) and its value converts to a string.
\<close>

definition titled :: "'n engine \<Rightarrow> string \<Rightarrow> 'n json \<Rightarrow> bool" where
  "titled E name item =
     (case get_prop E item name of
        Inl message \<Rightarrow> False
      | Inr v \<Rightarrow> (case ToString E v of Inl message \<Rightarrow> False | Inr t \<Rightarrow> True))"

text \<open>
  The card of one item of a bulk lookup: titled by the item's \<^verbatim>\<open>query\<close>, and showing
  the item's \<^verbatim>\<open>result\<close>, or the mapping \<^verbatim>\<open>{error: 'Not found'}\<close> when the result is
  falsy (absent and \<^verbatim>\<open>null\<close> included).
\<close>

definition bulk_result_card :: "'n engine \<Rightarrow> 'n json \<Rightarrow> card \<Rightarrow> bool" where
  "bulk_result_card E item c =
     (case get_prop E item ''query'' of
        Inl message \<Rightarrow> False
      | Inr q \<Rightarrow>
          (case ToString E q of
             Inl message \<Rightarrow> False
           | Inr t \<Rightarrow>
               (case get_prop E item ''result'' of
                  Inl message \<Rightarrow> False
                | Inr r \<Rightarrow>
                    heading c = ''Bulk Result for '' @ t
                    \<and> content c = generateHTML E
                        (if truthy E r then r else JObject [(''error'', JString ''Not found'')]))))"

section \<open>An environment for the examples\<close>

text \<open>
  The examples run in a stand-in browser: numbers are integers, upper-casing is that of
  ASCII letters, and the TypeError messages are those of one engine. It leaves URL
  components as they are, parses no text and is offline; an example replaces the fields
  it exercises.
\<close>

definition show_int :: "int \<Rightarrow> string" where
  "show_int i = (if i < 0 then ''-'' @ show_nat (nat (- i)) else show_nat (nat i))"

definition ascii_upper :: "char \<Rightarrow> char" where
  "ascii_upper c =
     (case map_of (zip ''abcdefghijklmnopqrstuvwxyz'' ''ABCDEFGHIJKLMNOPQRSTUVWXYZ'') c of
        None \<Rightarrow> c
      | Some u \<Rightarrow> u)"

definition example_engine :: "int engine" where
  "example_engine =
     \<lparr>number_toString = show_int,
      number_is_200 = (\<lambda>n. n = 200),
      number_is_falsy = (\<lambda>n. n = 0),
      property_TypeError = (\<lambda>v name.
        ''Cannot read properties of '' @ (if v = JNull then ''null'' else ''undefined'')
        @ '' (reading '' @ [squote] @ name @ [squote] @ '')''),
      primitive_TypeError = ''Cannot convert object to primitive value'',
      toUpperCase = map ascii_upper,
      encodeURIComponent = (\<lambda>s. s),
      URL_toString = (\<lambda>base params.
        base @ ''?'' @ join ''&'' (map (\<lambda>(k, v). k @ ''='' @ v) params)),
      JSON_parse = (\<lambda>s. Inl ''Unexpected token''),
      JSON_stringify = (\<lambda>v. []),
      fetch = (\<lambda>req. Inl ''Failed to fetch'')\<rparr>"

text \<open>An engine whose transport answers every request with a successful response.\<close>

definition answering :: "'n engine \<Rightarrow> 'n json \<Rightarrow> 'n engine" where
  "answering E data =
     E\<lparr>fetch := (\<lambda>req. Inr \<lparr>resp_ok = True, resp_status = 200, resp_statusText = ''OK'',
                             resp_json = Inr data\<rparr>)\<rparr>"

definition blank_inputs :: inputs where
  "blank_inputs =
     \<lparr>postcodeInput = ''  '', bulkPostcodes = [newline, CHR '' ''], latitudeInput = [],
      longitudeInput = '' '', bulkGeo = '' '', outcodeInput = [], placeCodeInput = '' '',
      placeQueryInput = [], terminatedInput = ''   '', scottishInput = []\<rparr>"

definition shown_page :: page where
  "shown_page = \<lparr>results = [\<lparr>heading = ''Random Place'', content = ''Leeds''\<rparr>], calls = []\<rparr>"

text \<open>
  Inputs with every field filled in, an envelope with a status and a result, the items of
  a search and of a bulk lookup, a bulk field of 101 entries, and an engine that parses
  the text \<^verbatim>\<open>{}\<close>.
\<close>

definition filled_inputs :: inputs where
  "filled_inputs =
     \<lparr>postcodeInput = '' sw1a 1aa '', bulkPostcodes = ''SW1A 1AA,XYZ'',
      latitudeInput = ''51.5'', longitudeInput = ''-0.14'', bulkGeo = ''not json'',
      outcodeInput = ''sw1a'', placeCodeInput = ''osgb4000000074564391'',
      placeQueryInput = ''Westminster'', terminatedInput = ''E1W 1UU'',
      scottishInput = ''EH1 1AA''\<rparr>"

definition envelope :: "int \<Rightarrow> int json \<Rightarrow> int json" where
  "envelope status_code result = JObject [(''status'', JNumber status_code), (''result'', result)]"

definition found_items :: "int json list" where
  "found_items =
     [JObject [(''postcode'', JString ''SW1A 1AA''), (''outcode'', JString ''SW1A''),
               (''place_name'', JString ''Westminster'')],
      JObject [(''postcode'', JString ''SW1A 2AA''), (''outcode'', JString ''SW1A'')]]"

definition bulk_items :: "int json list" where
  "bulk_items =
     [JObject [(''query'', JString ''SW1A 1AA''),
               (''result'', JObject [(''country'', JString ''England'')])],
      JObject [(''query'', JString ''XYZ''), (''result'', JNull)]]"

definition over_limit :: inputs where
  "over_limit = blank_inputs\<lparr>bulkPostcodes := concat (replicate 101 ''AB1 2CD,'')\<rparr>"

definition parsing_braces :: "int engine" where
  "parsing_braces =
     example_engine\<lparr>JSON_parse := (\<lambda>s. if s = ''{}'' then Inr (JObject []) else
        Inl ''Unexpected token'')\<rparr>"

section \<open>Facts about the examples\<close>

declare show_nat.simps [simp del]

lemma delivers_answering: "delivers (answering E data) data"
  by (simp add: delivers_def answering_def)

lemma filled_trims:
  "trim (postcodeInput filled_inputs) = ''sw1a 1aa''"
  "trim (latitudeInput filled_inputs) = ''51.5''"
  "trim (longitudeInput filled_inputs) = ''-0.14''"
  "trim (outcodeInput filled_inputs) = ''sw1a''"
  "trim (placeQueryInput filled_inputs) = ''Westminster''"
  by (simp_all add: filled_inputs_def trim_def is_white_space_def)

lemma answering_fields:
  "number_toString (answering example_engine d) = show_int"
  "number_is_200 (answering example_engine d) = (\<lambda>n. n = 200)"
  "number_is_falsy (answering example_engine d) = (\<lambda>n. n = 0)"
  "toUpperCase (answering example_engine d) = map ascii_upper"
  "encodeURIComponent (answering example_engine d) = (\<lambda>s. s)"
  by (simp_all add: answering_def example_engine_def)

lemma filled_bulk_lines: "bulk_lines (bulkPostcodes filled_inputs) = [''SW1A 1AA'', ''XYZ'']"
  by (simp add: filled_inputs_def bulk_lines_def trim_def is_white_space_def newline_def)

section \<open>The renderer escapes what it embeds\<close>

lemma replace_all_append: "replace_all c r (xs @ ys) = replace_all c r xs @ replace_all c r ys"
  by (simp add: replace_all_def)

lemma escapeHTML_append: "escapeHTML (xs @ ys) = escapeHTML xs @ escapeHTML ys"
  by (simp add: escapeHTML_def replace_all_append)

lemma escapeHTML_Nil: "escapeHTML [] = []"
  by (simp add: escapeHTML_def replace_all_def)

lemma escapeHTML_single:
  "escapeHTML [c] =
     (if c = CHR ''&'' then ''&amp;'' else if c = CHR ''<'' then ''&lt;''
      else if c = CHR ''>'' then ''&gt;'' else if c = dquote then ''&quot;''
      else if c = squote then ''&#039;'' else [c])"
  by (simp add: escapeHTML_def replace_all_def dquote_def squote_def)

lemma escapeHTML_Cons: "escapeHTML (c # cs) = escapeHTML [c] @ escapeHTML cs"
  using escapeHTML_append [of "[c]" cs] by simp

lemma escaped_text_escapeHTML: "escaped_text (escapeHTML s)"
proof (induction s)
  case Nil
  show ?case by (simp add: escapeHTML_Nil)
next
  case (Cons c s)
  have "escaped_text (escapeHTML [c] @ escapeHTML s)"
    using Cons.IH
    by (simp add: escapeHTML_single references_def reserved_def dquote_def squote_def)
  then show ?case by (simp add: escapeHTML_Cons [of c s])
qed

lemma escaped_text_no_lt: "escaped_text t \<Longrightarrow> CHR ''<'' \<notin> set t"
  by (induction t) (auto simp: reserved_def split: if_splits)

lemma unescape_escapeHTML: "unescape (escapeHTML s) = s"
proof (induction s)
  case Nil
  show ?case by (simp add: escapeHTML_Nil)
next
  case (Cons c s)
  have "unescape (escapeHTML [c] @ escapeHTML s) = c # unescape (escapeHTML s)"
    by (simp add: escapeHTML_single dquote_def squote_def)
  then show ?case using Cons.IH by (simp add: escapeHTML_Cons [of c s])
qed

lemma renders_leaf: "escaped_text (escapeHTML s) \<and> unescape (escapeHTML s) = s"
  by (simp add: escaped_text_escapeHTML unescape_escapeHTML)

inductive_cases renders_stringE: "renders E (JString s) t"

text \<open>
  A string is rendered by the escaped texts that read back as it, and by nothing else: in
  particular not by the string itself when it holds markup.
\<close>

lemma renders_string_iff: "renders E (JString s) t \<longleftrightarrow> escaped_text t \<and> unescape t = s"
  by (auto elim: renders_stringE intro: renders.string)

lemma raw_not_rendered: "\<not> renders E (JString ''<ul></ul>'') ''<ul></ul>''"
  by (simp add: renders_string_iff reserved_def)

text \<open>
  C1. For every value \<open>v\<close>, whatever the nesting, the markup that \<^const>\<open>generateHTML\<close>
  returns renders \<open>v\<close>: position by position it follows the structure of \<open>v\<close>, and what
  stands at the position of each leaf string (or number or boolean) and of each mapping
  key is an escaped text that reads back as exactly that string. So every reserved
  character that originates from string content of \<open>v\<close> appears in the output as its
  reference, never as itself. The output is also well-formed nested list markup.
\<close>

theorem generateHTML_renders_escaped:
  "renders E v (generateHTML E v) \<and> well_formed_markup (generateHTML E v)"
proof
  show "renders E v (generateHTML E v)"
  proof (induction E v rule: generateHTML.induct)
    case (6 E items)
    have "list_all2 (renders E) items (map (generateHTML E) items)"
      using 6 by (simp add: list_all2_conv_all_nth)
    from renders.array [OF this]
    show ?case by (simp add: comp_def)
  next
    case (7 E entries)
    have k: "list_all2 (\<lambda>key k. escaped_text k \<and> unescape k = key) (map fst entries)
        (map (\<lambda>e. escapeHTML (fst e)) entries)"
      by (simp add: list_all2_conv_all_nth renders_leaf)
    have ih: "renders E (snd e) (generateHTML E (snd e))" if "e \<in> set entries" for e
      using 7 [of e "fst e" "snd e"] that by simp
    have m: "list_all2 (renders E) (map snd entries) (map (\<lambda>e. generateHTML E (snd e)) entries)"
      by (simp add: list_all2_conv_all_nth ih)
    have eq: "concat (map (\<lambda>(k, m). ''<li><strong>'' @ k @ '':</strong> '' @ m @ ''</li>'')
          (zip (map (\<lambda>e. escapeHTML (fst e)) entries)
               (map (\<lambda>e. generateHTML E (snd e)) entries)))
        = concat (map (\<lambda>(key, v).
            ''<li><strong>'' @ escapeHTML key @ '':</strong> '' @ generateHTML E v @ ''</li>'')
            entries)"
      by (induction entries) auto
    from renders.object [OF k m]
    show ?case by (simp only: generateHTML.simps eq)
  qed (simp_all add: renders.intros renders_leaf)
  show "well_formed_markup (generateHTML E v)"
  proof (induction E v rule: generateHTML.induct)
    case (6 E items)
    have "\<forall>m \<in> set (map (generateHTML E) items). well_formed_markup m"
      using 6 by simp
    from well_formed_markup.sequence [OF this]
    show ?case by (simp add: comp_def)
  next
    case (7 E entries)
    let ?rows = "map (\<lambda>(key, v). (escapeHTML key, generateHTML E v)) entries"
    have "\<forall>(k, m) \<in> set ?rows. escaped_text k \<and> well_formed_markup m"
      using 7 by (auto simp: escaped_text_escapeHTML)
    from well_formed_markup.mapping [OF this]
    show ?case by (simp add: comp_def case_prod_unfold)
  qed (simp_all add: well_formed_markup.marker well_formed_markup.leaf escaped_text_escapeHTML)
qed

text \<open>
  A value whose key and leaf hold reserved characters, the markup returned for it, and a
  string holding markup, which its own text does not render while the returned text does.
\<close>

theorem generateHTML_renders_escaped_witness:
  "renders example_engine
     (JObject [(''<b>'', JArray [JString (''a&b'' @ [squote]), JNull, JNumber 5])])
     (generateHTML example_engine
        (JObject [(''<b>'', JArray [JString (''a&b'' @ [squote]), JNull, JNumber 5])]))
   \<and> generateHTML example_engine
        (JObject [(''<b>'', JArray [JString (''a&b'' @ [squote]), JNull, JNumber 5])])
     = ''<ul><li><strong>&lt;b&gt;:</strong> <ul><li>a&amp;b&#039;</li><li><span class=''
       @ [dquote] @ ''null'' @ [dquote] @ ''>null</span></li><li>5</li></ul></li></ul>''
   \<and> renders example_engine (JString ''<ul></ul>'')
       (generateHTML example_engine (JString ''<ul></ul>''))
   \<and> generateHTML example_engine (JString ''<ul></ul>'') = ''&lt;ul&gt;&lt;/ul&gt;''
   \<and> \<not> renders example_engine (JString ''<ul></ul>'') ''<ul></ul>''"
proof (intro conjI)
  show "renders example_engine
     (JObject [(''<b>'', JArray [JString (''a&b'' @ [squote]), JNull, JNumber 5])])
     (generateHTML example_engine
        (JObject [(''<b>'', JArray [JString (''a&b'' @ [squote]), JNull, JNumber 5])]))"
    using generateHTML_renders_escaped by (rule conjunct1)
  show "generateHTML example_engine
        (JObject [(''<b>'', JArray [JString (''a&b'' @ [squote]), JNull, JNumber 5])])
     = ''<ul><li><strong>&lt;b&gt;:</strong> <ul><li>a&amp;b&#039;</li><li><span class=''
       @ [dquote] @ ''null'' @ [dquote] @ ''>null</span></li><li>5</li></ul></li></ul>''"
    by (simp add: escapeHTML_def replace_all_def null_marker_def example_engine_def show_int_def
        show_nat.simps digit_def dquote_def squote_def)
  show "renders example_engine (JString ''<ul></ul>'')
       (generateHTML example_engine (JString ''<ul></ul>''))"
    using generateHTML_renders_escaped by (rule conjunct1)
  show "generateHTML example_engine (JString ''<ul></ul>'') = ''&lt;ul&gt;&lt;/ul&gt;''"
    by (simp add: escapeHTML_def replace_all_def dquote_def squote_def)
  show "\<not> renders example_engine (JString ''<ul></ul>'') ''<ul></ul>''"
    by (rule raw_not_rendered)
qed

lemma escapeHTML_not_marker: "escapeHTML s \<noteq> null_marker"
proof
  assume "escapeHTML s = null_marker"
  then have "CHR ''<'' \<in> set (escapeHTML s)" by (simp add: null_marker_def)
  then show False using escaped_text_no_lt [OF escaped_text_escapeHTML] by blast
qed

text \<open>
  C8. Rendering \<^verbatim>\<open>null\<close> and rendering \<^verbatim>\<open>undefined\<close> give the same null marker, and
  no other value renders to it.
\<close>

theorem null_marker_iff:
  "generateHTML E v = null_marker \<longleftrightarrow> v = JNull \<or> v = JUndefined"
  by (cases v) (simp_all add: escapeHTML_not_marker, simp_all add: null_marker_def)

section \<open>Empty input\<close>

lemma trim_empty_iff: "trim s = [] \<longleftrightarrow> (\<forall>c \<in> set s. is_white_space c)"
proof
  assume "trim s = []"
  then have "dropWhile is_white_space (rev (dropWhile is_white_space s)) = []"
    by (simp add: trim_def)
  then have "\<forall>c \<in> set (dropWhile is_white_space s). is_white_space c"
    by (simp add: dropWhile_eq_Nil_conv)
  then have "dropWhile is_white_space s = []"
    by (metis hd_dropWhile hd_in_set)
  then show "\<forall>c \<in> set s. is_white_space c"
    by (simp add: dropWhile_eq_Nil_conv)
next
  assume "\<forall>c \<in> set s. is_white_space c"
  then have "dropWhile is_white_space s = []"
    by (simp add: dropWhile_eq_Nil_conv)
  then have "trim s = rev (dropWhile is_white_space (rev []))"
    by (simp only: trim_def)
  then show "trim s = []" by simp
qed

lemma split_chars: "\<forall>piece \<in> set (split sep s). set piece \<subseteq> set s"
proof (induction s)
  case Nil
  show ?case by simp
next
  case (Cons c cs)
  then show ?case
    by (auto split: list.splits)
qed

lemma bulk_lines_blank: "trim s = [] \<Longrightarrow> bulk_lines s = []"
proof -
  assume "trim s = []"
  then have ws: "\<forall>c \<in> set s. is_white_space c" by (simp add: trim_empty_iff)
  have "\<forall>piece \<in> set (split (\<lambda>c. c = newline \<or> c = CHR '','') s). trim piece = []"
    using ws split_chars trim_empty_iff by blast
  then show ?thesis by (auto simp: bulk_lines_def filter_empty_conv)
qed

text \<open>
  C5. Each of the fifteen handlers with a required input field returns the page as it
  found it when that field is empty after trimming: no request is logged and no card is
  added or removed. The two reverse geocoding handlers require both coordinates.
\<close>

theorem empty_input_aborts:
  "(trim (postcodeInput inp) = [] \<longrightarrow>
      lookupPostcodeBtn E inp st = st \<and> validatePostcodeBtn E inp st = st
      \<and> queryPostcodeBtn E inp st = st \<and> autocompleteBtn E inp st = st
      \<and> nearestPostcodeBtn E inp st = st)
   \<and> (trim (bulkPostcodes inp) = [] \<longrightarrow> bulkLookupBtn E inp st = st)
   \<and> (trim (latitudeInput inp) = [] \<or> trim (longitudeInput inp) = [] \<longrightarrow>
      reverseGeocodeBtn E inp st = st \<and> reverseOutcodeBtn E inp st = st)
   \<and> (trim (bulkGeo inp) = [] \<longrightarrow> bulkReverseBtn E inp st = st)
   \<and> (trim (outcodeInput inp) = [] \<longrightarrow>
      lookupOutcodeBtn E inp st = st \<and> nearestOutcodeBtn E inp st = st)
   \<and> (trim (placeCodeInput inp) = [] \<longrightarrow> lookupPlaceBtn E inp st = st)
   \<and> (trim (placeQueryInput inp) = [] \<longrightarrow> queryPlaceBtn E inp st = st)
   \<and> (trim (terminatedInput inp) = [] \<longrightarrow> terminatedLookupBtn E inp st = st)
   \<and> (trim (scottishInput inp) = [] \<longrightarrow> scottishLookupBtn E inp st = st)"
proof -
  have a: "trim (postcodeInput inp) = [] \<Longrightarrow> lookupPostcodeBtn E inp st = st"
    by (simp add: lookupPostcodeBtn_def)
  have b: "trim (postcodeInput inp) = [] \<Longrightarrow> validatePostcodeBtn E inp st = st"
    by (simp add: validatePostcodeBtn_def)
  have c: "trim (postcodeInput inp) = [] \<Longrightarrow> queryPostcodeBtn E inp st = st"
    by (simp add: queryPostcodeBtn_def)
  have d: "trim (postcodeInput inp) = [] \<Longrightarrow> autocompleteBtn E inp st = st"
    by (simp add: autocompleteBtn_def)
  have e: "trim (postcodeInput inp) = [] \<Longrightarrow> nearestPostcodeBtn E inp st = st"
    by (simp add: nearestPostcodeBtn_def)
  have f: "trim (bulkPostcodes inp) = [] \<Longrightarrow> bulkLookupBtn E inp st = st"
    by (simp add: bulkLookupBtn_def bulk_lines_blank)
  have g: "trim (latitudeInput inp) = [] \<or> trim (longitudeInput inp) = [] \<Longrightarrow>
      reverseGeocodeBtn E inp st = st"
    by (auto simp: reverseGeocodeBtn_def)
  have h: "trim (latitudeInput inp) = [] \<or> trim (longitudeInput inp) = [] \<Longrightarrow>
      reverseOutcodeBtn E inp st = st"
    by (auto simp: reverseOutcodeBtn_def)
  have i: "trim (bulkGeo inp) = [] \<Longrightarrow> bulkReverseBtn E inp st = st"
    by (simp add: bulkReverseBtn_def)
  have j: "trim (outcodeInput inp) = [] \<Longrightarrow> lookupOutcodeBtn E inp st = st"
    by (simp add: lookupOutcodeBtn_def)
  have k: "trim (outcodeInput inp) = [] \<Longrightarrow> nearestOutcodeBtn E inp st = st"
    by (simp add: nearestOutcodeBtn_def)
  have l: "trim (placeCodeInput inp) = [] \<Longrightarrow> lookupPlaceBtn E inp st = st"
    by (simp add: lookupPlaceBtn_def)
  have m: "trim (placeQueryInput inp) = [] \<Longrightarrow> queryPlaceBtn E inp st = st"
    by (simp add: queryPlaceBtn_def)
  have n: "trim (terminatedInput inp) = [] \<Longrightarrow> terminatedLookupBtn E inp st = st"
    by (simp add: terminatedLookupBtn_def)
  have o: "trim (scottishInput inp) = [] \<Longrightarrow> scottishLookupBtn E inp st = st"
    by (simp add: scottishLookupBtn_def)
  show ?thesis
    by (intro conjI impI; (rule a b c d e f g h i j k l m n o; assumption))
qed

theorem empty_input_aborts_witness:
  "lookupPostcodeBtn example_engine blank_inputs shown_page = shown_page
   \<and> validatePostcodeBtn example_engine blank_inputs shown_page = shown_page
   \<and> queryPostcodeBtn example_engine blank_inputs shown_page = shown_page
   \<and> autocompleteBtn example_engine blank_inputs shown_page = shown_page
   \<and> nearestPostcodeBtn example_engine blank_inputs shown_page = shown_page
   \<and> bulkLookupBtn example_engine blank_inputs shown_page = shown_page
   \<and> reverseGeocodeBtn example_engine blank_inputs shown_page = shown_page
   \<and> reverseOutcodeBtn example_engine blank_inputs shown_page = shown_page
   \<and> bulkReverseBtn example_engine blank_inputs shown_page = shown_page
   \<and> lookupOutcodeBtn example_engine blank_inputs shown_page = shown_page
   \<and> nearestOutcodeBtn example_engine blank_inputs shown_page = shown_page
   \<and> lookupPlaceBtn example_engine blank_inputs shown_page = shown_page
   \<and> queryPlaceBtn example_engine blank_inputs shown_page = shown_page
   \<and> terminatedLookupBtn example_engine blank_inputs shown_page = shown_page
   \<and> scottishLookupBtn example_engine blank_inputs shown_page = shown_page"
proof -
  have blank: "trim (postcodeInput blank_inputs) = []" "trim (bulkPostcodes blank_inputs) = []"
    "trim (latitudeInput blank_inputs) = []" "trim (bulkGeo blank_inputs) = []"
    "trim (outcodeInput blank_inputs) = []" "trim (placeCodeInput blank_inputs) = []"
    "trim (placeQueryInput blank_inputs) = []" "trim (terminatedInput blank_inputs) = []"
    "trim (scottishInput blank_inputs) = []"
    by (simp_all add: blank_inputs_def trim_def is_white_space_def newline_def)
  show ?thesis
    using empty_input_aborts [of blank_inputs example_engine shown_page] blank by simp
qed

section \<open>Input refused before dispatch\<close>

lemma renderCard_eq: "renderCard E title data st = st\<lparr>results := results st @ [card_of E title data]\<rparr>"
  by (simp add: renderCard_def card_of_def)

lemma renderError_eq:
  "renderError E (JString message) st = st\<lparr>results := results st @ [error_card E message]\<rparr>"
  by (simp add: renderError_def renderCard_eq error_card_def)

lemma getJSON_delivers:
  "delivers E data \<Longrightarrow> getJSON E url st =
     (Inr data, st\<lparr>calls := calls st @
        [\<lparr>req_method = ''GET'', req_url = url, req_headers = [], req_body = None\<rparr>]\<rparr>)"
proof -
  assume d: "delivers E data"
  obtain response where
    "fetch E \<lparr>req_method = ''GET'', req_url = url, req_headers = [], req_body = None\<rparr>
       = Inr response" "resp_ok response" "resp_json response = Inr data"
    using d unfolding delivers_def by blast
  then show ?thesis by (simp add: getJSON_def)
qed

lemma postJSON_delivers:
  "delivers E data \<Longrightarrow> postJSON E url body st =
     (Inr data, st\<lparr>calls := calls st @
        [\<lparr>req_method = ''POST'', req_url = url,
          req_headers = [(''Content-Type'', ''application/json'')],
          req_body = Some (JSON_stringify E body)\<rparr>]\<rparr>)"
proof -
  assume d: "delivers E data"
  obtain response where
    "fetch E \<lparr>req_method = ''POST'', req_url = url,
          req_headers = [(''Content-Type'', ''application/json'')],
          req_body = Some (JSON_stringify E body)\<rparr>
       = Inr response" "resp_ok response" "resp_json response = Inr data"
    using d unfolding delivers_def by blast
  then show ?thesis by (simp add: postJSON_def)
qed

text \<open>
  C3. When the list of trimmed, non-empty entries of the bulk lookup field has more than
  100 entries, the handler does what \<^const>\<open>renderError\<close> does with the message of the
  100-entry limit and nothing else: the last card is that error card, and the log of
  requests is unchanged, so neither \<^const>\<open>getJSON\<close> nor \<^const>\<open>postJSON\<close> has run.
\<close>

theorem bulk_limit:
  "length (bulk_lines (bulkPostcodes inp)) > 100 \<Longrightarrow>
     bulkLookupBtn E inp st
       = renderError E (JString ''Bulk lookup is limited to 100 postcodes.'') st
     \<and> last (results (bulkLookupBtn E inp st))
       = error_card E ''Bulk lookup is limited to 100 postcodes.''
     \<and> calls (bulkLookupBtn E inp st) = calls st"
proof -
  assume long: "length (bulk_lines (bulkPostcodes inp)) > 100"
  then have "bulk_lines (bulkPostcodes inp) \<noteq> []" by auto
  with long have run: "bulkLookupBtn E inp st
       = renderError E (JString ''Bulk lookup is limited to 100 postcodes.'') st"
    by (simp add: bulkLookupBtn_def)
  show ?thesis
    unfolding run by (simp add: renderError_eq)
qed

theorem bulk_limit_witness:
  "length (bulk_lines (bulkPostcodes over_limit)) = 101
   \<and> results (bulkLookupBtn example_engine over_limit shown_page)
     = [\<lparr>heading = ''Random Place'', content = ''Leeds''\<rparr>,
        \<lparr>heading = ''Error'',
         content = ''<ul><li><strong>message:</strong> Bulk lookup is limited to 100 postcodes.</li></ul>''\<rparr>]
   \<and> calls (bulkLookupBtn example_engine over_limit shown_page) = []"
proof -
  have n: "length (bulk_lines (bulkPostcodes over_limit)) = 101"
    by code_simp
  then have long: "length (bulk_lines (bulkPostcodes over_limit)) > 100" by simp
  have card: "error_card example_engine ''Bulk lookup is limited to 100 postcodes.''
     = \<lparr>heading = ''Error'',
         content = ''<ul><li><strong>message:</strong> Bulk lookup is limited to 100 postcodes.</li></ul>''\<rparr>"
    by (simp add: error_card_def card_of_def escapeHTML_def replace_all_def dquote_def squote_def)
  show ?thesis
    using bulk_limit [OF long, of example_engine shown_page] n card
    by (simp add: renderError_eq shown_page_def)
qed

text \<open>
  C4. When the trimmed text of the bulk reverse geocode field is not empty and either
  does not parse or parses to a value that is not an array, the handler does what
  \<^const>\<open>renderError\<close> does with the invalid-JSON message and nothing else: the last card
  is that error card, and the log of requests is unchanged.
\<close>

theorem bulk_reverse_invalid:
  assumes "trim (bulkGeo inp) \<noteq> []"
    and "(\<exists>message. JSON_parse E (trim (bulkGeo inp)) = Inl message)
         \<or> (\<exists>parsed. JSON_parse E (trim (bulkGeo inp)) = Inr parsed
              \<and> (\<forall>elements. parsed \<noteq> JArray elements))"
  shows "bulkReverseBtn E inp st
       = renderError E (JString ''Invalid JSON for bulk reverse geocode.'') st
     \<and> last (results (bulkReverseBtn E inp st))
       = error_card E ''Invalid JSON for bulk reverse geocode.''
     \<and> calls (bulkReverseBtn E inp st) = calls st"
proof -
  have run: "bulkReverseBtn E inp st
       = renderError E (JString ''Invalid JSON for bulk reverse geocode.'') st"
    using assms
    by (auto simp: bulkReverseBtn_def split: sum.splits json.splits)
  show ?thesis
    unfolding run by (simp add: renderError_eq)
qed

theorem bulk_reverse_invalid_witness:
  "results (bulkReverseBtn example_engine filled_inputs shown_page)
     = results shown_page @ [error_card example_engine ''Invalid JSON for bulk reverse geocode.'']
   \<and> calls (bulkReverseBtn example_engine filled_inputs shown_page) = []
   \<and> results (bulkReverseBtn parsing_braces (filled_inputs\<lparr>bulkGeo := '' {} ''\<rparr>) shown_page)
     = results shown_page @ [error_card parsing_braces ''Invalid JSON for bulk reverse geocode.'']
   \<and> calls (bulkReverseBtn parsing_braces (filled_inputs\<lparr>bulkGeo := '' {} ''\<rparr>) shown_page) = []"
proof -
  have t1: "trim (bulkGeo filled_inputs) = ''not json''"
    by (simp add: filled_inputs_def trim_def is_white_space_def)
  have t2: "trim '' {} '' = ''{}''"
    by (simp add: trim_def is_white_space_def)
  have p1: "JSON_parse example_engine ''not json'' = Inl ''Unexpected token''"
    by (simp add: example_engine_def)
  have p2: "JSON_parse parsing_braces ''{}'' = Inr (JObject [])"
    by (simp add: parsing_braces_def)
  have a: "bulkReverseBtn example_engine filled_inputs shown_page
     = renderError example_engine (JString ''Invalid JSON for bulk reverse geocode.'') shown_page
     \<and> last (results (bulkReverseBtn example_engine filled_inputs shown_page))
       = error_card example_engine ''Invalid JSON for bulk reverse geocode.''
     \<and> calls (bulkReverseBtn example_engine filled_inputs shown_page) = calls shown_page"
    by (rule bulk_reverse_invalid) (simp_all add: t1 p1)
  have b: "bulkReverseBtn parsing_braces (filled_inputs\<lparr>bulkGeo := '' {} ''\<rparr>) shown_page
     = renderError parsing_braces (JString ''Invalid JSON for bulk reverse geocode.'') shown_page
     \<and> last (results (bulkReverseBtn parsing_braces (filled_inputs\<lparr>bulkGeo := '' {} ''\<rparr>) shown_page))
       = error_card parsing_braces ''Invalid JSON for bulk reverse geocode.''
     \<and> calls (bulkReverseBtn parsing_braces (filled_inputs\<lparr>bulkGeo := '' {} ''\<rparr>) shown_page)
       = calls shown_page"
    by (rule bulk_reverse_invalid) (simp_all add: t2 p2)
  show ?thesis
    using a b by (simp add: renderError_eq shown_page_def)
qed

lemma clear_twice: "clearResults (clearResults st) = clearResults st"
  by (simp add: clearResults_def)

text \<open>
  C9. The two error cards of client-side validation are appended to the cards already
  displayed. On every other path on which a handler renders, the handler clears the area
  first: run from a page with cards, it ends as it does from the cleared page.
\<close>

theorem validation_errors_keep_cards:
  "(length (bulk_lines (bulkPostcodes inp)) > 100 \<longrightarrow>
      results (bulkLookupBtn E inp st)
        = results st @ [error_card E ''Bulk lookup is limited to 100 postcodes.''])
   \<and> (trim (bulkGeo inp) \<noteq> [] \<and> (\<forall>elements. JSON_parse E (trim (bulkGeo inp)) \<noteq> Inr (JArray elements)) \<longrightarrow>
      results (bulkReverseBtn E inp st)
        = results st @ [error_card E ''Invalid JSON for bulk reverse geocode.''])
   \<and> (bulk_lines (bulkPostcodes inp) \<noteq> [] \<and> length (bulk_lines (bulkPostcodes inp)) \<le> 100 \<longrightarrow>
      bulkLookupBtn E inp st = bulkLookupBtn E inp (clearResults st))
   \<and> (trim (bulkGeo inp) \<noteq> [] \<and> (\<exists>elements. JSON_parse E (trim (bulkGeo inp)) = Inr (JArray elements)) \<longrightarrow>
      bulkReverseBtn E inp st = bulkReverseBtn E inp (clearResults st))
   \<and> (trim (postcodeInput inp) \<noteq> [] \<longrightarrow>
      lookupPostcodeBtn E inp st = lookupPostcodeBtn E inp (clearResults st)
      \<and> validatePostcodeBtn E inp st = validatePostcodeBtn E inp (clearResults st)
      \<and> queryPostcodeBtn E inp st = queryPostcodeBtn E inp (clearResults st)
      \<and> autocompleteBtn E inp st = autocompleteBtn E inp (clearResults st)
      \<and> nearestPostcodeBtn E inp st = nearestPostcodeBtn E inp (clearResults st))
   \<and> randomPostcodeBtn E inp st = randomPostcodeBtn E inp (clearResults st)
   \<and> randomPlaceBtn E inp st = randomPlaceBtn E inp (clearResults st)
   \<and> (trim (latitudeInput inp) \<noteq> [] \<and> trim (longitudeInput inp) \<noteq> [] \<longrightarrow>
      reverseGeocodeBtn E inp st = reverseGeocodeBtn E inp (clearResults st)
      \<and> reverseOutcodeBtn E inp st = reverseOutcodeBtn E inp (clearResults st))
   \<and> (trim (outcodeInput inp) \<noteq> [] \<longrightarrow>
      lookupOutcodeBtn E inp st = lookupOutcodeBtn E inp (clearResults st)
      \<and> nearestOutcodeBtn E inp st = nearestOutcodeBtn E inp (clearResults st))
   \<and> (trim (placeCodeInput inp) \<noteq> [] \<longrightarrow>
      lookupPlaceBtn E inp st = lookupPlaceBtn E inp (clearResults st))
   \<and> (trim (placeQueryInput inp) \<noteq> [] \<longrightarrow>
      queryPlaceBtn E inp st = queryPlaceBtn E inp (clearResults st))
   \<and> (trim (terminatedInput inp) \<noteq> [] \<longrightarrow>
      terminatedLookupBtn E inp st = terminatedLookupBtn E inp (clearResults st))
   \<and> (trim (scottishInput inp) \<noteq> [] \<longrightarrow>
      scottishLookupBtn E inp st = scottishLookupBtn E inp (clearResults st))"
proof -
  have a: "length (bulk_lines (bulkPostcodes inp)) > 100 \<Longrightarrow>
      results (bulkLookupBtn E inp st)
        = results st @ [error_card E ''Bulk lookup is limited to 100 postcodes.'']"
  proof -
    assume long: "length (bulk_lines (bulkPostcodes inp)) > 100"
    then have "bulk_lines (bulkPostcodes inp) \<noteq> []" by auto
    with long show ?thesis by (simp add: bulkLookupBtn_def renderError_eq)
  qed
  have b: "trim (bulkGeo inp) \<noteq> [] \<Longrightarrow>
      \<forall>elements. JSON_parse E (trim (bulkGeo inp)) \<noteq> Inr (JArray elements) \<Longrightarrow>
      results (bulkReverseBtn E inp st)
        = results st @ [error_card E ''Invalid JSON for bulk reverse geocode.'']"
    by (auto simp: bulkReverseBtn_def renderError_eq split: sum.splits json.splits)
  have c: "bulk_lines (bulkPostcodes inp) \<noteq> [] \<Longrightarrow>
      length (bulk_lines (bulkPostcodes inp)) \<le> 100 \<Longrightarrow>
      bulkLookupBtn E inp st = bulkLookupBtn E inp (clearResults st)"
    by (simp add: bulkLookupBtn_def clear_twice)
  have d: "trim (bulkGeo inp) \<noteq> [] \<Longrightarrow>
      \<exists>elements. JSON_parse E (trim (bulkGeo inp)) = Inr (JArray elements) \<Longrightarrow>
      bulkReverseBtn E inp st = bulkReverseBtn E inp (clearResults st)"
    by (auto simp: bulkReverseBtn_def clear_twice)
  have e: "trim (postcodeInput inp) \<noteq> [] \<Longrightarrow>
      lookupPostcodeBtn E inp st = lookupPostcodeBtn E inp (clearResults st)"
    by (simp add: lookupPostcodeBtn_def clear_twice)
  have f: "trim (postcodeInput inp) \<noteq> [] \<Longrightarrow>
      validatePostcodeBtn E inp st = validatePostcodeBtn E inp (clearResults st)"
    by (simp add: validatePostcodeBtn_def clear_twice)
  have g: "trim (postcodeInput inp) \<noteq> [] \<Longrightarrow>
      queryPostcodeBtn E inp st = queryPostcodeBtn E inp (clearResults st)"
    by (simp add: queryPostcodeBtn_def clear_twice)
  have h: "trim (postcodeInput inp) \<noteq> [] \<Longrightarrow>
      autocompleteBtn E inp st = autocompleteBtn E inp (clearResults st)"
    by (simp add: autocompleteBtn_def clear_twice)
  have i: "trim (postcodeInput inp) \<noteq> [] \<Longrightarrow>
      nearestPostcodeBtn E inp st = nearestPostcodeBtn E inp (clearResults st)"
    by (simp add: nearestPostcodeBtn_def clear_twice)
  have j: "randomPostcodeBtn E inp st = randomPostcodeBtn E inp (clearResults st)"
    by (simp add: randomPostcodeBtn_def clear_twice)
  have k: "randomPlaceBtn E inp st = randomPlaceBtn E inp (clearResults st)"
    by (simp add: randomPlaceBtn_def clear_twice)
  have l: "trim (latitudeInput inp) \<noteq> [] \<Longrightarrow> trim (longitudeInput inp) \<noteq> [] \<Longrightarrow>
      reverseGeocodeBtn E inp st = reverseGeocodeBtn E inp (clearResults st)"
    by (simp add: reverseGeocodeBtn_def clear_twice)
  have m: "trim (latitudeInput inp) \<noteq> [] \<Longrightarrow> trim (longitudeInput inp) \<noteq> [] \<Longrightarrow>
      reverseOutcodeBtn E inp st = reverseOutcodeBtn E inp (clearResults st)"
    by (simp add: reverseOutcodeBtn_def clear_twice)
  have n: "trim (outcodeInput inp) \<noteq> [] \<Longrightarrow>
      lookupOutcodeBtn E inp st = lookupOutcodeBtn E inp (clearResults st)"
    by (simp add: lookupOutcodeBtn_def clear_twice)
  have o: "trim (outcodeInput inp) \<noteq> [] \<Longrightarrow>
      nearestOutcodeBtn E inp st = nearestOutcodeBtn E inp (clearResults st)"
    by (simp add: nearestOutcodeBtn_def clear_twice)
  have p: "trim (placeCodeInput inp) \<noteq> [] \<Longrightarrow>
      lookupPlaceBtn E inp st = lookupPlaceBtn E inp (clearResults st)"
    by (simp add: lookupPlaceBtn_def clear_twice)
  have q: "trim (placeQueryInput inp) \<noteq> [] \<Longrightarrow>
      queryPlaceBtn E inp st = queryPlaceBtn E inp (clearResults st)"
    by (simp add: queryPlaceBtn_def clear_twice)
  have r: "trim (terminatedInput inp) \<noteq> [] \<Longrightarrow>
      terminatedLookupBtn E inp st = terminatedLookupBtn E inp (clearResults st)"
    by (simp add: terminatedLookupBtn_def clear_twice)
  have s: "trim (scottishInput inp) \<noteq> [] \<Longrightarrow>
      scottishLookupBtn E inp st = scottishLookupBtn E inp (clearResults st)"
    by (simp add: scottishLookupBtn_def clear_twice)
  show ?thesis
    by (intro conjI impI; (elim conjE)?; (rule a b c d e f g h i j k l m n o p q r s; assumption))
qed

theorem validation_errors_keep_cards_witness:
  "results (bulkLookupBtn example_engine over_limit shown_page)
     = results shown_page @ [error_card example_engine ''Bulk lookup is limited to 100 postcodes.'']
   \<and> results (bulkReverseBtn example_engine filled_inputs shown_page)
     = results shown_page @ [error_card example_engine ''Invalid JSON for bulk reverse geocode.'']
   \<and> lookupPostcodeBtn example_engine filled_inputs shown_page
     = lookupPostcodeBtn example_engine filled_inputs (clearResults shown_page)
   \<and> results (lookupPostcodeBtn example_engine filled_inputs shown_page)
     = [error_card example_engine ''Failed to fetch'']"
proof -
  have n: "length (bulk_lines (bulkPostcodes over_limit)) > 100"
    by code_simp
  have t1: "trim (bulkGeo filled_inputs) = ''not json''"
    by (simp add: filled_inputs_def trim_def is_white_space_def)
  have p1: "\<forall>elements. JSON_parse example_engine ''not json'' \<noteq> Inr (JArray elements)"
    by (simp add: example_engine_def)
  have t3: "trim (postcodeInput filled_inputs) = ''sw1a 1aa''"
    by (simp add: filled_inputs_def trim_def is_white_space_def)
  have run: "results (lookupPostcodeBtn example_engine filled_inputs shown_page)
     = [error_card example_engine ''Failed to fetch'']"
    by (simp add: lookupPostcodeBtn_def t3 Let_def getJSON_def clearResults_def renderError_eq
        example_engine_def)
  show ?thesis
    using validation_errors_keep_cards [of over_limit example_engine shown_page]
      validation_errors_keep_cards [of filled_inputs example_engine shown_page] n t1 p1 t3 run
    by simp
qed

section \<open>The dispatcher's failures\<close>

text \<open>
  C6, as amended. \<^const>\<open>getJSON\<close> and \<^const>\<open>postJSON\<close> fail exactly when
  \<^verbatim>\<open>fetch\<close> rejects, when the response's status is not a success, or when the body
  of a successful response does not parse as JSON. On a response they return the parsed
  body when the status is a success, and otherwise fail with the status code, a space and
  the status text as the message.
\<close>

theorem dispatcher_outcome:
  "(isl (fst (getJSON E url st)) \<longleftrightarrow>
      (case fetch E \<lparr>req_method = ''GET'', req_url = url, req_headers = [], req_body = None\<rparr> of
         Inl message \<Rightarrow> True
       | Inr response \<Rightarrow> \<not> resp_ok response \<or> isl (resp_json response)))
   \<and> (isl (fst (postJSON E url payload st)) \<longleftrightarrow>
      (case fetch E \<lparr>req_method = ''POST'', req_url = url,
                     req_headers = [(''Content-Type'', ''application/json'')],
                     req_body = Some (JSON_stringify E payload)\<rparr> of
         Inl message \<Rightarrow> True
       | Inr response \<Rightarrow> \<not> resp_ok response \<or> isl (resp_json response)))
   \<and> (\<forall>response.
        fetch E \<lparr>req_method = ''GET'', req_url = url, req_headers = [], req_body = None\<rparr>
          = Inr response \<longrightarrow>
        fst (getJSON E url st)
          = (if resp_ok response then resp_json response
             else Inl (show_nat (resp_status response) @ '' '' @ resp_statusText response)))
   \<and> (\<forall>response.
        fetch E \<lparr>req_method = ''POST'', req_url = url,
                  req_headers = [(''Content-Type'', ''application/json'')],
                  req_body = Some (JSON_stringify E payload)\<rparr>
          = Inr response \<longrightarrow>
        fst (postJSON E url payload st)
          = (if resp_ok response then resp_json response
             else Inl (show_nat (resp_status response) @ '' '' @ resp_statusText response)))"
  by (auto simp: getJSON_def postJSON_def Let_def split: sum.splits)

text \<open>
  The claim as stated fails where a response with a success status has a body that is not
  JSON: the transport reported success and completed, and \<^const>\<open>getJSON\<close> fails with
  the parser's message.
\<close>

theorem dispatcher_counterexample:
  "fetch (example_engine\<lparr>fetch := (\<lambda>req. Inr \<lparr>resp_ok = True, resp_status = 200,
       resp_statusText = ''OK'', resp_json = Inl ''Unexpected token < in JSON''\<rparr>)\<rparr>)
     \<lparr>req_method = ''GET'', req_url = ''https://api.postcodes.io/random/places'',
      req_headers = [], req_body = None\<rparr>
     = Inr \<lparr>resp_ok = True, resp_status = 200, resp_statusText = ''OK'',
            resp_json = Inl ''Unexpected token < in JSON''\<rparr>
   \<and> fst (getJSON (example_engine\<lparr>fetch := (\<lambda>req. Inr \<lparr>resp_ok = True, resp_status = 200,
         resp_statusText = ''OK'', resp_json = Inl ''Unexpected token < in JSON''\<rparr>)\<rparr>)
       ''https://api.postcodes.io/random/places'' \<lparr>results = [], calls = []\<rparr>)
     = Inl ''Unexpected token < in JSON''"
  by (simp add: getJSON_def)

theorem dispatcher_outcome_witness:
  "fst (getJSON (example_engine\<lparr>fetch := (\<lambda>req. Inr \<lparr>resp_ok = False, resp_status = 404,
         resp_statusText = ''Not Found'', resp_json = Inr JNull\<rparr>)\<rparr>)
       ''https://api.postcodes.io/postcodes/XYZ'' \<lparr>results = [], calls = []\<rparr>)
     = Inl ''404 Not Found''
   \<and> fst (postJSON (answering example_engine (JObject [(''status'', JNumber 200)]))
       ''https://api.postcodes.io/postcodes'' JNull \<lparr>results = [], calls = []\<rparr>)
     = Inr (JObject [(''status'', JNumber 200)])
   \<and> isl (fst (getJSON example_engine ''https://api.postcodes.io/random/places''
       \<lparr>results = [], calls = []\<rparr>))"
  using dispatcher_outcome [of
      "example_engine\<lparr>fetch := (\<lambda>req. Inr \<lparr>resp_ok = False, resp_status = 404,
         resp_statusText = ''Not Found'', resp_json = Inr JNull\<rparr>)\<rparr>"
      "''https://api.postcodes.io/postcodes/XYZ''" "\<lparr>results = [], calls = []\<rparr>" JNull]
    dispatcher_outcome [of "answering example_engine (JObject [(''status'', JNumber 200)])"
      "''https://api.postcodes.io/postcodes''" "\<lparr>results = [], calls = []\<rparr>" JNull]
    dispatcher_outcome [of example_engine "''https://api.postcodes.io/random/places''"
      "\<lparr>results = [], calls = []\<rparr>" JNull]
  by (simp add: answering_def example_engine_def show_nat.simps digit_def)

section \<open>Postcode validation\<close>

text \<open>
  C7. Once the dispatcher has returned the envelope, the validation handler looks at the
  type of its \<^verbatim>\<open>result\<close> only, never at its \<^verbatim>\<open>status\<close>: for a boolean result the
  page shows the one card with the upper-cased postcode and the boolean, and for every
  other outcome of reading the result it shows one error card.
\<close>

theorem validate_by_result_type:
  assumes "trim (postcodeInput inp) \<noteq> []" and "delivers E data"
  shows "(\<forall>b. get_prop E data ''result'' = Inr (JBool b) \<longrightarrow>
            results (validatePostcodeBtn E inp st)
              = [card_of E (''Validate Postcode: '' @ toUpperCase E (trim (postcodeInput inp)))
                   (JObject [(''postcode'', JString (toUpperCase E (trim (postcodeInput inp)))),
                             (''valid'', JBool b)])])
       \<and> ((\<forall>b. get_prop E data ''result'' \<noteq> Inr (JBool b)) \<longrightarrow>
            (\<exists>message. results (validatePostcodeBtn E inp st) = [error_card E message]))"
  using assms
  by (auto simp: validatePostcodeBtn_def Let_def getJSON_delivers clearResults_def renderCard_eq
      renderError_eq split: sum.splits json.splits)

theorem validate_by_result_type_witness:
  "results (validatePostcodeBtn (answering example_engine (envelope 404 (JBool True)))
       filled_inputs shown_page)
     = [\<lparr>heading = ''Validate Postcode: SW1A 1AA'',
         content = ''<ul><li><strong>postcode:</strong> SW1A 1AA</li><li><strong>valid:</strong> true</li></ul>''\<rparr>]
   \<and> (\<exists>message. results (validatePostcodeBtn
         (answering example_engine (envelope 200 (JString ''true''))) filled_inputs shown_page)
       = [error_card (answering example_engine (envelope 200 (JString ''true''))) message])"
proof -
  have t3: "trim (postcodeInput filled_inputs) = ''sw1a 1aa''"
    by (simp add: filled_inputs_def trim_def is_white_space_def)
  have up: "toUpperCase (answering example_engine d) ''sw1a 1aa'' = ''SW1A 1AA''" for d
    by (simp add: answering_def example_engine_def ascii_upper_def)
  have card: "card_of (answering example_engine (envelope 404 (JBool True)))
        ''Validate Postcode: SW1A 1AA''
        (JObject [(''postcode'', JString ''SW1A 1AA''), (''valid'', JBool True)])
      = \<lparr>heading = ''Validate Postcode: SW1A 1AA'',
         content = ''<ul><li><strong>postcode:</strong> SW1A 1AA</li><li><strong>valid:</strong> true</li></ul>''\<rparr>"
    by (simp add: card_of_def escapeHTML_def replace_all_def dquote_def squote_def
        boolean_toString_def)
  show ?thesis
    using validate_by_result_type [of filled_inputs
        "answering example_engine (envelope 404 (JBool True))" "envelope 404 (JBool True)" shown_page]
      validate_by_result_type [of filled_inputs
        "answering example_engine (envelope 200 (JString ''true''))"
        "envelope 200 (JString ''true'')" shown_page]
      t3 up card
    by (auto simp: envelope_def delivers_answering)
qed

section \<open>One card per item\<close>

lemma forEach_all2:
  assumes "\<And>item idx. item \<in> set items \<Longrightarrow>
     \<exists>c. R item c \<and> (\<forall>s. callback item idx s = Normal (s\<lparr>results := results s @ [c]\<rparr>))"
  shows "\<exists>cs. list_all2 R items cs
     \<and> (\<forall>st. forEach callback items i st = Normal (st\<lparr>results := results st @ cs\<rparr>))"
  using assms
proof (induction items arbitrary: i)
  case Nil
  show ?case by simp
next
  case (Cons item items)
  obtain c where c: "R item c"
    "\<And>s. callback item i s = Normal (s\<lparr>results := results s @ [c]\<rparr>)"
    using Cons.prems [of item i] by auto
  have "\<exists>cs. list_all2 R items cs
     \<and> (\<forall>st. forEach callback items (i + 1) st = Normal (st\<lparr>results := results st @ cs\<rparr>))"
    by (rule Cons.IH) (simp add: Cons.prems)
  then obtain cs where cs: "list_all2 R items cs"
    "\<And>st. forEach callback items (i + 1) st = Normal (st\<lparr>results := results st @ cs\<rparr>)"
    by auto
  show ?case
    using c cs by (intro exI [of _ "c # cs"]) simp
qed

lemma all2_contents:
  "list_all2 (\<lambda>item c. content c = generateHTML E item) items cs \<Longrightarrow>
   map content cs = map (generateHTML E) items"
  by (induction rule: list_all2_induct) simp_all

lemma titled_elim:
  "titled E name item \<Longrightarrow> \<exists>v t. get_prop E item name = Inr v \<and> ToString E v = Inr t"
  by (auto simp: titled_def split: sum.splits)

lemma envelope_elim:
  "success_envelope E data items \<Longrightarrow>
   \<exists>status. get_prop E data ''status'' = Inr status \<and> is_200 E status
     \<and> get_prop E data ''result'' = Inr (JArray items)"
  by (auto simp: success_envelope_def split: sum.splits)

lemma titled_loop:
  assumes "\<forall>item \<in> set items. titled E name item"
  shows "\<exists>cs. map content cs = map (generateHTML E) items
    \<and> (\<forall>st. forEach
      (\<lambda>item idx s.
         case get_prop E item name of
           Inl message \<Rightarrow> Throw message s
         | Inr v \<Rightarrow>
             (case ToString E v of
                Inl message \<Rightarrow> Throw message s
              | Inr t \<Rightarrow> Normal (renderCard E (h idx t) item s)))
      items i st = Normal (st\<lparr>results := results st @ cs\<rparr>))"
proof -
  have "\<exists>cs. list_all2 (\<lambda>item c. content c = generateHTML E item) items cs
    \<and> (\<forall>st. forEach
      (\<lambda>item idx s.
         case get_prop E item name of
           Inl message \<Rightarrow> Throw message s
         | Inr v \<Rightarrow>
             (case ToString E v of
                Inl message \<Rightarrow> Throw message s
              | Inr t \<Rightarrow> Normal (renderCard E (h idx t) item s)))
      items i st = Normal (st\<lparr>results := results st @ cs\<rparr>))"
  proof (rule forEach_all2)
    fix item idx
    assume "item \<in> set items"
    then obtain v t where vt: "get_prop E item name = Inr v" "ToString E v = Inr t"
      using assms titled_elim by blast
    show "\<exists>c. content c = generateHTML E item \<and>
        (\<forall>s. (case get_prop E item name of
           Inl message \<Rightarrow> Throw message s
         | Inr v \<Rightarrow>
             (case ToString E v of
                Inl message \<Rightarrow> Throw message s
              | Inr t \<Rightarrow> Normal (renderCard E (h idx t) item s)))
        = Normal (s\<lparr>results := results s @ [c]\<rparr>))"
      using vt by (intro exI [of _ "card_of E (h idx t) item"]) (simp add: renderCard_eq card_of_def)
  qed
  then show ?thesis using all2_contents by blast
qed

lemma get_prop_total: "get_prop E item a = Inr v \<Longrightarrow> \<exists>r. get_prop E item b = Inr r"
  by (cases item) (simp_all split: option.split)

lemma place_loop:
  assumes "\<forall>item \<in> set items. titled E ''place_name'' item"
  shows "\<exists>cs. map content cs = map (generateHTML E) items
    \<and> (\<forall>st. forEach
      (\<lambda>item idx s.
         case get_prop E item ''place_name'' of
           Inl message \<Rightarrow> Throw message s
         | Inr place_name \<Rightarrow>
             (case (if truthy E place_name then ToString E place_name else Inr (h idx)) of
                Inl message \<Rightarrow> Throw message s
              | Inr title \<Rightarrow> Normal (renderCard E title item s)))
      items i st = Normal (st\<lparr>results := results st @ cs\<rparr>))"
proof -
  have "\<exists>cs. list_all2 (\<lambda>item c. content c = generateHTML E item) items cs
    \<and> (\<forall>st. forEach
      (\<lambda>item idx s.
         case get_prop E item ''place_name'' of
           Inl message \<Rightarrow> Throw message s
         | Inr place_name \<Rightarrow>
             (case (if truthy E place_name then ToString E place_name else Inr (h idx)) of
                Inl message \<Rightarrow> Throw message s
              | Inr title \<Rightarrow> Normal (renderCard E title item s)))
      items i st = Normal (st\<lparr>results := results st @ cs\<rparr>))"
  proof (rule forEach_all2)
    fix item idx
    assume "item \<in> set items"
    then obtain v t where vt: "get_prop E item ''place_name'' = Inr v" "ToString E v = Inr t"
      using assms titled_elim by blast
    show "\<exists>c. content c = generateHTML E item \<and>
        (\<forall>s. (case get_prop E item ''place_name'' of
           Inl message \<Rightarrow> Throw message s
         | Inr place_name \<Rightarrow>
             (case (if truthy E place_name then ToString E place_name else Inr (h idx)) of
                Inl message \<Rightarrow> Throw message s
              | Inr title \<Rightarrow> Normal (renderCard E title item s)))
        = Normal (s\<lparr>results := results s @ [c]\<rparr>))"
      using vt
      by (intro exI [of _ "card_of E (if truthy E v then t else h idx) item"])
        (simp add: renderCard_eq card_of_def)
  qed
  then show ?thesis using all2_contents by blast
qed

lemma bulk_loop:
  assumes "\<forall>item \<in> set items. titled E ''query'' item"
  shows "\<exists>cs. list_all2 (bulk_result_card E) items cs
    \<and> (\<forall>st. forEach
      (\<lambda>item idx s.
         case get_prop E item ''query'' of
           Inl message \<Rightarrow> Throw message s
         | Inr title \<Rightarrow>
             (case get_prop E item ''result'' of
                Inl message \<Rightarrow> Throw message s
              | Inr item_result \<Rightarrow>
                  (case ToString E title of
                     Inl message \<Rightarrow> Throw message s
                   | Inr t \<Rightarrow>
                       if truthy E item_result then
                         Normal (renderCard E (''Bulk Result for '' @ t) item_result s)
                       else
                         Normal (renderCard E (''Bulk Result for '' @ t)
                           (JObject [(''error'', JString ''Not found'')]) s))))
      items i st = Normal (st\<lparr>results := results st @ cs\<rparr>))"
proof (rule forEach_all2)
  fix item idx
  assume "item \<in> set items"
  then obtain q t where qt: "get_prop E item ''query'' = Inr q" "ToString E q = Inr t"
    using assms titled_elim by blast
  then obtain r where r: "get_prop E item ''result'' = Inr r"
    using get_prop_total by blast
  show "\<exists>c. bulk_result_card E item c \<and>
      (\<forall>s. (case get_prop E item ''query'' of
           Inl message \<Rightarrow> Throw message s
         | Inr title \<Rightarrow>
             (case get_prop E item ''result'' of
                Inl message \<Rightarrow> Throw message s
              | Inr item_result \<Rightarrow>
                  (case ToString E title of
                     Inl message \<Rightarrow> Throw message s
                   | Inr t \<Rightarrow>
                       if truthy E item_result then
                         Normal (renderCard E (''Bulk Result for '' @ t) item_result s)
                       else
                         Normal (renderCard E (''Bulk Result for '' @ t)
                           (JObject [(''error'', JString ''Not found'')]) s))))
        = Normal (s\<lparr>results := results s @ [c]\<rparr>))"
    using qt r
    by (intro exI [of _ "card_of E (''Bulk Result for '' @ t)
          (if truthy E r then r else JObject [(''error'', JString ''Not found'')])"])
      (simp add: renderCard_eq card_of_def bulk_result_card_def)
qed

lemma queryPostcodeBtn_cards:
  assumes "trim (postcodeInput inp) \<noteq> []" "delivers E data" "success_envelope E data items"
    "items \<noteq> []" "\<forall>item \<in> set items. titled E ''postcode'' item"
  shows "map content (results (queryPostcodeBtn E inp st)) = map (generateHTML E) items"
proof -
  obtain status where env: "get_prop E data ''status'' = Inr status" "is_200 E status"
    "get_prop E data ''result'' = Inr (JArray items)"
    using envelope_elim [OF assms(3)] by blast
  show ?thesis
    using titled_loop [OF assms(5), of "\<lambda>idx t. ''Match '' @ show_nat (idx + 1) @ '': '' @ t" 0]
      assms(1,4) env
    by (clarsimp simp: queryPostcodeBtn_def Let_def getJSON_delivers [OF assms(2)] clearResults_def)
qed

lemma nearestPostcodeBtn_cards:
  assumes "trim (postcodeInput inp) \<noteq> []" "delivers E data" "success_envelope E data items"
    "items \<noteq> []" "\<forall>item \<in> set items. titled E ''postcode'' item"
  shows "map content (results (nearestPostcodeBtn E inp st)) = map (generateHTML E) items"
proof -
  obtain status where env: "get_prop E data ''status'' = Inr status" "is_200 E status"
    "get_prop E data ''result'' = Inr (JArray items)"
    using envelope_elim [OF assms(3)] by blast
  show ?thesis
    using titled_loop [OF assms(5), of "\<lambda>idx t. ''Nearest '' @ show_nat (idx + 1) @ '': '' @ t" 0]
      assms(1,4) env
    by (clarsimp simp: nearestPostcodeBtn_def Let_def getJSON_delivers [OF assms(2)] clearResults_def)
qed

lemma reverseGeocodeBtn_cards:
  assumes "trim (latitudeInput inp) \<noteq> []" "trim (longitudeInput inp) \<noteq> []"
    "delivers E data" "success_envelope E data items"
    "items \<noteq> []" "\<forall>item \<in> set items. titled E ''postcode'' item"
  shows "map content (results (reverseGeocodeBtn E inp st)) = map (generateHTML E) items"
proof -
  obtain status where env: "get_prop E data ''status'' = Inr status" "is_200 E status"
    "get_prop E data ''result'' = Inr (JArray items)"
    using envelope_elim [OF assms(4)] by blast
  show ?thesis
    using titled_loop [OF assms(6),
        of "\<lambda>idx t. ''Reverse Geocode '' @ show_nat (idx + 1) @ '': '' @ t" 0]
      assms(1,2,5) env
    by (clarsimp simp: reverseGeocodeBtn_def Let_def getJSON_delivers [OF assms(3)] clearResults_def)
qed

lemma reverseOutcodeBtn_cards:
  assumes "trim (latitudeInput inp) \<noteq> []" "trim (longitudeInput inp) \<noteq> []"
    "delivers E data" "success_envelope E data items"
    "items \<noteq> []" "\<forall>item \<in> set items. titled E ''outcode'' item"
  shows "map content (results (reverseOutcodeBtn E inp st)) = map (generateHTML E) items"
proof -
  obtain status where env: "get_prop E data ''status'' = Inr status" "is_200 E status"
    "get_prop E data ''result'' = Inr (JArray items)"
    using envelope_elim [OF assms(4)] by blast
  show ?thesis
    using titled_loop [OF assms(6),
        of "\<lambda>idx t. ''Reverse Outcode '' @ show_nat (idx + 1) @ '': '' @ t" 0]
      assms(1,2,5) env
    by (clarsimp simp: reverseOutcodeBtn_def Let_def getJSON_delivers [OF assms(3)] clearResults_def)
qed

lemma nearestOutcodeBtn_cards:
  assumes "trim (outcodeInput inp) \<noteq> []" "delivers E data" "success_envelope E data items"
    "items \<noteq> []" "\<forall>item \<in> set items. titled E ''outcode'' item"
  shows "map content (results (nearestOutcodeBtn E inp st)) = map (generateHTML E) items"
proof -
  obtain status where env: "get_prop E data ''status'' = Inr status" "is_200 E status"
    "get_prop E data ''result'' = Inr (JArray items)"
    using envelope_elim [OF assms(3)] by blast
  show ?thesis
    using titled_loop [OF assms(5),
        of "\<lambda>idx t. ''Nearest Outcode '' @ show_nat (idx + 1) @ '': '' @ t" 0]
      assms(1,4) env
    by (clarsimp simp: nearestOutcodeBtn_def Let_def getJSON_delivers [OF assms(2)] clearResults_def)
qed

lemma queryPlaceBtn_cards:
  assumes "trim (placeQueryInput inp) \<noteq> []" "delivers E data" "success_envelope E data items"
    "items \<noteq> []" "\<forall>item \<in> set items. titled E ''place_name'' item"
  shows "map content (results (queryPlaceBtn E inp st)) = map (generateHTML E) items"
proof -
  obtain status where env: "get_prop E data ''status'' = Inr status" "is_200 E status"
    "get_prop E data ''result'' = Inr (JArray items)"
    using envelope_elim [OF assms(3)] by blast
  show ?thesis
    using place_loop [OF assms(5), of "\<lambda>idx. ''Place '' @ show_nat (idx + 1)" 0]
      assms(1,4) env
    by (clarsimp simp: queryPlaceBtn_def Let_def getJSON_delivers [OF assms(2)] clearResults_def)
qed

lemma autocompleteBtn_card:
  assumes "trim (postcodeInput inp) \<noteq> []" "delivers E data" "success_envelope E data items"
    "items \<noteq> []"
  shows "results (autocompleteBtn E inp st)
     = [card_of E (''Autocomplete for '' @ [squote] @ trim (postcodeInput inp) @ [squote])
          (JArray items)]"
proof -
  obtain status where env: "get_prop E data ''status'' = Inr status" "is_200 E status"
    "get_prop E data ''result'' = Inr (JArray items)"
    using envelope_elim [OF assms(3)] by blast
  show ?thesis
    using assms(1,4) env
    by (simp add: autocompleteBtn_def Let_def getJSON_delivers [OF assms(2)] clearResults_def
        renderCard_eq)
qed

text \<open>
  C2, as amended. On a success envelope with a non-empty sequence, each of the six
  handlers that iterate over the sequence renders one card per item, in order, the card
  showing the item, provided every item can be titled by the property the handler's
  heading names. The autocomplete handler renders one card that shows the whole sequence.
\<close>

theorem one_card_per_item:
  assumes "delivers E data" and "success_envelope E data items" and "items \<noteq> []"
  shows
    "(trim (postcodeInput inp) \<noteq> [] \<and> (\<forall>item \<in> set items. titled E ''postcode'' item) \<longrightarrow>
        map content (results (queryPostcodeBtn E inp st)) = map (generateHTML E) items
        \<and> map content (results (nearestPostcodeBtn E inp st)) = map (generateHTML E) items)
     \<and> (trim (latitudeInput inp) \<noteq> [] \<and> trim (longitudeInput inp) \<noteq> []
        \<and> (\<forall>item \<in> set items. titled E ''postcode'' item) \<longrightarrow>
        map content (results (reverseGeocodeBtn E inp st)) = map (generateHTML E) items)
     \<and> (trim (latitudeInput inp) \<noteq> [] \<and> trim (longitudeInput inp) \<noteq> []
        \<and> (\<forall>item \<in> set items. titled E ''outcode'' item) \<longrightarrow>
        map content (results (reverseOutcodeBtn E inp st)) = map (generateHTML E) items)
     \<and> (trim (outcodeInput inp) \<noteq> [] \<and> (\<forall>item \<in> set items. titled E ''outcode'' item) \<longrightarrow>
        map content (results (nearestOutcodeBtn E inp st)) = map (generateHTML E) items)
     \<and> (trim (placeQueryInput inp) \<noteq> []
        \<and> (\<forall>item \<in> set items. titled E ''place_name'' item) \<longrightarrow>
        map content (results (queryPlaceBtn E inp st)) = map (generateHTML E) items)
     \<and> (trim (postcodeInput inp) \<noteq> [] \<longrightarrow>
        results (autocompleteBtn E inp st)
          = [card_of E (''Autocomplete for '' @ [squote] @ trim (postcodeInput inp) @ [squote])
               (JArray items)])"
  by (intro conjI impI; (elim conjE)?;
      (rule queryPostcodeBtn_cards nearestPostcodeBtn_cards reverseGeocodeBtn_cards
         reverseOutcodeBtn_cards nearestOutcodeBtn_cards queryPlaceBtn_cards autocompleteBtn_card;
       (rule assms | assumption)))

theorem one_card_per_item_witness:
  "map content (results (queryPostcodeBtn
       (answering example_engine (envelope 200 (JArray found_items))) filled_inputs shown_page))
     = map (generateHTML (answering example_engine (envelope 200 (JArray found_items)))) found_items
   \<and> map content (results (nearestPostcodeBtn
       (answering example_engine (envelope 200 (JArray found_items))) filled_inputs shown_page))
     = map (generateHTML (answering example_engine (envelope 200 (JArray found_items)))) found_items
   \<and> map content (results (reverseGeocodeBtn
       (answering example_engine (envelope 200 (JArray found_items))) filled_inputs shown_page))
     = map (generateHTML (answering example_engine (envelope 200 (JArray found_items)))) found_items
   \<and> map content (results (reverseOutcodeBtn
       (answering example_engine (envelope 200 (JArray found_items))) filled_inputs shown_page))
     = map (generateHTML (answering example_engine (envelope 200 (JArray found_items)))) found_items
   \<and> map content (results (nearestOutcodeBtn
       (answering example_engine (envelope 200 (JArray found_items))) filled_inputs shown_page))
     = map (generateHTML (answering example_engine (envelope 200 (JArray found_items)))) found_items
   \<and> map content (results (queryPlaceBtn
       (answering example_engine (envelope 200 (JArray found_items))) filled_inputs shown_page))
     = map (generateHTML (answering example_engine (envelope 200 (JArray found_items)))) found_items
   \<and> results (autocompleteBtn
       (answering example_engine (envelope 200 (JArray found_items))) filled_inputs shown_page)
     = [card_of (answering example_engine (envelope 200 (JArray found_items)))
          (''Autocomplete for '' @ [squote] @ ''sw1a 1aa'' @ [squote]) (JArray found_items)]
   \<and> length found_items = 2"
proof -
  let ?E = "answering example_engine (envelope 200 (JArray found_items))"
  have env: "success_envelope ?E (envelope 200 (JArray found_items)) found_items"
    by (simp add: success_envelope_def envelope_def answering_def example_engine_def)
  have ne: "found_items \<noteq> []"
    by (simp add: found_items_def)
  have t: "\<forall>item \<in> set found_items. titled ?E ''postcode'' item"
    "\<forall>item \<in> set found_items. titled ?E ''outcode'' item"
    "\<forall>item \<in> set found_items. titled ?E ''place_name'' item"
    by (simp_all add: found_items_def titled_def)
  show ?thesis
    using one_card_per_item [OF delivers_answering env ne, of filled_inputs shown_page] t
    by (simp add: filled_trims) (simp add: found_items_def)
qed

text \<open>
  The claim as stated fails for the autocomplete handler, which renders one card for a
  sequence of two items, and for a sequence that holds \<^verbatim>\<open>null\<close>: reading the
  heading's property of \<^verbatim>\<open>null\<close> throws, and the one card rendered for two items is
  the error card.
\<close>

theorem one_card_per_item_counterexample:
  "success_envelope
     (answering example_engine (envelope 200 (JArray [JString ''SW1A 1AA'', JString ''SW1A 2AA''])))
     (envelope 200 (JArray [JString ''SW1A 1AA'', JString ''SW1A 2AA'']))
     [JString ''SW1A 1AA'', JString ''SW1A 2AA'']
   \<and> length (results (autocompleteBtn
       (answering example_engine (envelope 200 (JArray [JString ''SW1A 1AA'', JString ''SW1A 2AA''])))
       filled_inputs shown_page)) = 1
   \<and> map heading (results (queryPostcodeBtn
       (answering example_engine
          (envelope 200 (JArray [JNull, JObject [(''postcode'', JString ''SW1A 1AA'')]])))
       filled_inputs shown_page)) = [''Error'']"
proof (intro conjI)
  show "success_envelope
     (answering example_engine (envelope 200 (JArray [JString ''SW1A 1AA'', JString ''SW1A 2AA''])))
     (envelope 200 (JArray [JString ''SW1A 1AA'', JString ''SW1A 2AA'']))
     [JString ''SW1A 1AA'', JString ''SW1A 2AA'']"
    by (simp add: success_envelope_def envelope_def answering_fields)
  show "length (results (autocompleteBtn
       (answering example_engine (envelope 200 (JArray [JString ''SW1A 1AA'', JString ''SW1A 2AA''])))
       filled_inputs shown_page)) = 1"
    by (simp add: autocompleteBtn_def filled_trims Let_def getJSON_delivers [OF delivers_answering]
        envelope_def clearResults_def renderCard_eq answering_fields)
  show "map heading (results (queryPostcodeBtn
       (answering example_engine
          (envelope 200 (JArray [JNull, JObject [(''postcode'', JString ''SW1A 1AA'')]])))
       filled_inputs shown_page)) = [''Error'']"
    by (simp add: queryPostcodeBtn_def filled_trims Let_def getJSON_delivers [OF delivers_answering]
        envelope_def clearResults_def renderCard_eq renderError_eq error_card_def card_of_def
        answering_fields)
qed

text \<open>
  C10, as amended. On a success envelope the bulk lookup renders one card per item, in
  order, each the bulk result card of its item, provided every item can be titled by its
  \<^verbatim>\<open>query\<close>. The card of an item whose result is absent or \<^verbatim>\<open>null\<close> is not
  titled Error, and shows the mapping \<^verbatim>\<open>{error: 'Not found'}\<close>.
\<close>

theorem bulk_lookup_cards:
  assumes "bulk_lines (bulkPostcodes inp) \<noteq> []"
    and "length (bulk_lines (bulkPostcodes inp)) \<le> 100"
    and "delivers E data" and "success_envelope E data items"
    and "\<forall>item \<in> set items. titled E ''query'' item"
  shows "list_all2 (bulk_result_card E) items (results (bulkLookupBtn E inp st))
     \<and> (\<forall>item c. bulk_result_card E item c
          \<and> (get_prop E item ''result'' = Inr JNull
             \<or> get_prop E item ''result'' = Inr JUndefined) \<longrightarrow>
          heading c \<noteq> ''Error''
          \<and> content c = generateHTML E (JObject [(''error'', JString ''Not found'')]))"
proof
  obtain status where env: "get_prop E data ''status'' = Inr status" "is_200 E status"
    "get_prop E data ''result'' = Inr (JArray items)"
    using envelope_elim [OF assms(4)] by blast
  show "list_all2 (bulk_result_card E) items (results (bulkLookupBtn E inp st))"
    using bulk_loop [OF assms(5), of 0] assms(1,2) env
    by (clarsimp simp: bulkLookupBtn_def Let_def postJSON_delivers [OF assms(3)] clearResults_def)
  show "\<forall>item c. bulk_result_card E item c
          \<and> (get_prop E item ''result'' = Inr JNull
             \<or> get_prop E item ''result'' = Inr JUndefined) \<longrightarrow>
          heading c \<noteq> ''Error''
          \<and> content c = generateHTML E (JObject [(''error'', JString ''Not found'')])"
    by (auto simp: bulk_result_card_def split: sum.splits)
qed

theorem bulk_lookup_cards_witness:
  "list_all2 (bulk_result_card (answering example_engine (envelope 200 (JArray bulk_items))))
     bulk_items
     (results (bulkLookupBtn (answering example_engine (envelope 200 (JArray bulk_items)))
        filled_inputs shown_page))
   \<and> results (bulkLookupBtn (answering example_engine (envelope 200 (JArray bulk_items)))
        filled_inputs shown_page)
     = [\<lparr>heading = ''Bulk Result for SW1A 1AA'',
         content = ''<ul><li><strong>country:</strong> England</li></ul>''\<rparr>,
        \<lparr>heading = ''Bulk Result for XYZ'',
         content = ''<ul><li><strong>error:</strong> Not found</li></ul>''\<rparr>]"
proof
  let ?E = "answering example_engine (envelope 200 (JArray bulk_items))"
  have env: "success_envelope ?E (envelope 200 (JArray bulk_items)) bulk_items"
    by (simp add: success_envelope_def envelope_def answering_fields)
  have t: "\<forall>item \<in> set bulk_items. titled ?E ''query'' item"
    by (simp add: bulk_items_def titled_def)
  have l: "bulk_lines (bulkPostcodes filled_inputs) \<noteq> []"
    "length (bulk_lines (bulkPostcodes filled_inputs)) \<le> 100"
    by (simp_all add: filled_bulk_lines)
  show "list_all2 (bulk_result_card ?E) bulk_items (results (bulkLookupBtn ?E filled_inputs shown_page))"
    using bulk_lookup_cards [OF l delivers_answering env t, of shown_page] by simp
  show "results (bulkLookupBtn ?E filled_inputs shown_page)
     = [\<lparr>heading = ''Bulk Result for SW1A 1AA'',
         content = ''<ul><li><strong>country:</strong> England</li></ul>''\<rparr>,
        \<lparr>heading = ''Bulk Result for XYZ'',
         content = ''<ul><li><strong>error:</strong> Not found</li></ul>''\<rparr>]"
    by (simp add: bulkLookupBtn_def filled_bulk_lines Let_def
        postJSON_delivers [OF delivers_answering] envelope_def bulk_items_def clearResults_def
        renderCard_eq card_of_def answering_fields escapeHTML_def replace_all_def
        dquote_def squote_def)
qed

text \<open>
  The claim as stated fails for a sequence that holds \<^verbatim>\<open>null\<close>: reading its
  \<^verbatim>\<open>query\<close> throws, and the one card rendered for two items is titled Error.
\<close>

theorem bulk_lookup_cards_counterexample:
  "success_envelope
     (answering example_engine
        (envelope 200 (JArray [JNull, JObject [(''query'', JString ''XYZ''), (''result'', JNull)]])))
     (envelope 200 (JArray [JNull, JObject [(''query'', JString ''XYZ''), (''result'', JNull)]]))
     [JNull, JObject [(''query'', JString ''XYZ''), (''result'', JNull)]]
   \<and> map heading (results (bulkLookupBtn
       (answering example_engine
          (envelope 200 (JArray [JNull, JObject [(''query'', JString ''XYZ''), (''result'', JNull)]])))
       filled_inputs shown_page)) = [''Error'']"
proof
  show "success_envelope
     (answering example_engine
        (envelope 200 (JArray [JNull, JObject [(''query'', JString ''XYZ''), (''result'', JNull)]])))
     (envelope 200 (JArray [JNull, JObject [(''query'', JString ''XYZ''), (''result'', JNull)]]))
     [JNull, JObject [(''query'', JString ''XYZ''), (''result'', JNull)]]"
    by (simp add: success_envelope_def envelope_def answering_fields)
  show "map heading (results (bulkLookupBtn
       (answering example_engine
          (envelope 200 (JArray [JNull, JObject [(''query'', JString ''XYZ''), (''result'', JNull)]])))
       filled_inputs shown_page)) = [''Error'']"
    by (simp add: bulkLookupBtn_def filled_bulk_lines Let_def
        postJSON_delivers [OF delivers_answering] envelope_def clearResults_def
        renderCard_eq renderError_eq error_card_def card_of_def answering_fields)
qed

end
